theory Spec2Isabelle
  imports Main "HOL-Library.AList"
begin

section \<open>JavaScript values, objects and the store\<close>

text \<open>
  The values that reach \<^verbatim>\<open>src/lib/APMTracer.js\<close>: primitives, and references to
  objects that live in a store. Numbers are modelled as integers (fractions and NaN are
  not represented), strings as lists of characters. An object is the list of its own enumerable
  string-keyed properties in the order \<^verbatim>\<open>Object.keys\<close> reports them; a write to an
  existing key keeps its place, a write to a new key appends it (the order of JavaScript
  for keys that are not array indices).
\<close>

datatype jsval =
    JUndefined
  | JNull
  | JBool bool
  | JNum int
  | JStr string
  | JRef nat

type_synonym obj = "(string \<times> jsval) list"

datatype js_error = TypeError

text \<open>Truthiness, as tested by \<^verbatim>\<open>!x\<close>, \<^verbatim>\<open>x || y\<close>, \<^verbatim>\<open>x && y\<close> and \<^verbatim>\<open>if (x)\<close>.\<close>

fun truthy :: "jsval \<Rightarrow> bool" where
  "truthy JUndefined = False"
| "truthy JNull = False"
| "truthy (JBool b) = b"
| "truthy (JNum n) = (n \<noteq> 0)"
| "truthy (JStr s) = (s \<noteq> [])"
| "truthy (JRef a) = True"

fun typeof :: "jsval \<Rightarrow> string" where
  "typeof JUndefined = ''undefined''"
| "typeof JNull = ''object''"
| "typeof (JBool b) = ''boolean''"
| "typeof (JNum n) = ''number''"
| "typeof (JStr s) = ''string''"
| "typeof (JRef a) = ''object''"

text \<open>Own-property read, write and test of an object.\<close>

definition get_prop :: "obj \<Rightarrow> string \<Rightarrow> jsval" where
  "get_prop ob k = (case map_of ob k of None \<Rightarrow> JUndefined | Some v \<Rightarrow> v)"

definition set_prop :: "obj \<Rightarrow> string \<Rightarrow> jsval \<Rightarrow> obj" where
  "set_prop ob k v = AList.update k v ob"

definition hasOwnProperty :: "obj \<Rightarrow> string \<Rightarrow> bool" where
  "hasOwnProperty ob k = (map_of ob k \<noteq> None)"

text \<open>
  \<^verbatim>\<open>String.prototype.toUpperCase\<close> is a built-in of the language, not code of the
  repository, and its table covers all of Unicode (it maps the dotless i onto \<open>I\<close>, for
  one). It is therefore a parameter of the operations that call it, written
  \<open>toUpperCase\<close> in their definitions, and no theorem fixes what it does outside ASCII.
  What is known of it on ASCII text is stated separately: there it maps the letters
  \<open>a\<close> to \<open>z\<close> onto \<open>A\<close> to \<open>Z\<close> and leaves every other character alone.
\<close>

definition letter_pairs :: "(char \<times> char) list" where
  "letter_pairs = zip ''abcdefghijklmnopqrstuvwxyz'' ''ABCDEFGHIJKLMNOPQRSTUVWXYZ''"

definition upper_char :: "char \<Rightarrow> char" where
  "upper_char c = (case map_of letter_pairs c of None \<Rightarrow> c | Some u \<Rightarrow> u)"

definition ascii_toUpperCase :: "string \<Rightarrow> string" where
  "ascii_toUpperCase s = map upper_char s"

definition is_ascii :: "char \<Rightarrow> bool" where
  "is_ascii c = ((of_char c :: nat) < 128)"

definition agrees_on_ascii :: "(string \<Rightarrow> string) \<Rightarrow> bool" where
  "agrees_on_ascii toUpperCase =
     (\<forall>s. list_all is_ascii s \<longrightarrow> toUpperCase s = ascii_toUpperCase s)"

text \<open>Two characters are the same letter when they are equal or are the small and the
  capital form of one ASCII letter; two keys differ in letter case only when they are
  the same letter at every position.\<close>

definition same_letter :: "char \<Rightarrow> char \<Rightarrow> bool" where
  "same_letter c d = (c = d \<or> (c, d) \<in> set letter_pairs \<or> (d, c) \<in> set letter_pairs)"

definition case_variant :: "string \<Rightarrow> string \<Rightarrow> bool" where
  "case_variant k k' = list_all2 same_letter k k'"

text \<open>The decimal numeral of a natural number: the name of an array index, and the
  text of a generated identifier.\<close>

definition digit :: "nat \<Rightarrow> char" where
  "digit d = ''0123456789'' ! d"

fun digits :: "nat \<Rightarrow> string" where
  "digits n = (if n < 10 then [digit n] else digits (n div 10) @ [digit (n mod 10)])"

declare digits.simps [simp del]

section \<open>Collaborators of the tracer\<close>

text \<open>
  The module \<^verbatim>\<open>./constants\<close> and the format constants of the \<^verbatim>\<open>opentracing\<close>
  package are not in \<^verbatim>\<open>src/\<close>: their values are parameters of every operation.
\<close>

record constants =
  FORMAT_HTTP_HEADERS :: jsval
  FORMAT_TEXT_MAP :: jsval
  CARRIER_TRACE_ID :: string
  CARRIER_CORRELATION_ID :: string
  CARRIER_TRANSACTION :: string
  CARRIER_LEVEL :: string
  NODE_TYPE_PRODUCER :: string
  CORR_ID_SCOPE_INTERACTION :: string
  PROP_SERVICE_NAME :: string
  PROP_BUILD_STAMP :: string

text \<open>
  The four carrier key names are pairwise different, and each is its own upper-case form
  (so that the comparison of \<^verbatim>\<open>objectKey.toUpperCase()\<close> with it can succeed).
\<close>

definition carrier_keys :: "constants \<Rightarrow> string list" where
  "carrier_keys K =
     [CARRIER_CORRELATION_ID K, CARRIER_TRACE_ID K, CARRIER_TRANSACTION K, CARRIER_LEVEL K]"

definition wf_constants :: "constants \<Rightarrow> bool" where
  "wf_constants K = distinct (carrier_keys K)"

definition upper_case_keys :: "(string \<Rightarrow> string) \<Rightarrow> constants \<Rightarrow> bool" where
  "upper_case_keys toUpperCase K = list_all (\<lambda>k. toUpperCase k = k) (carrier_keys K)"

definition supported :: "constants \<Rightarrow> jsval \<Rightarrow> bool" where
  "supported K format = (format = FORMAT_HTTP_HEADERS K \<or> format = FORMAT_TEXT_MAP K)"

text \<open>
  Modelled from the spec: \<^verbatim>\<open>./APMSpanContext\<close> is not in \<^verbatim>\<open>src/\<close>. The spec's data
  model gives a SpanContext the fields spanId, traceId, parentId, transaction, level and
  consumerCorrelationId; the constructor takes the first five in this order and the
  accessors return the stored fields. \<open>trace_ref\<close> is what \<^verbatim>\<open>getTrace()\<close> returns: a
  reference to the owning trace, or \<open>None\<close> for \<^verbatim>\<open>undefined\<close>.
\<close>

record span_context =
  spanId :: jsval
  traceId :: jsval
  parentId :: jsval
  transaction :: jsval
  level :: jsval
  consumerCorrelationId :: jsval
  trace_ref :: "nat option"

definition APMSpanContext :: "jsval \<Rightarrow> jsval \<Rightarrow> jsval \<Rightarrow> jsval \<Rightarrow> jsval \<Rightarrow> span_context" where
  "APMSpanContext sid tid pid txn lvl =
     \<lparr>spanId = sid, traceId = tid, parentId = pid, transaction = txn, level = lvl,
      consumerCorrelationId = JUndefined, trace_ref = None\<rparr>"

definition setConsumerCorrelationId :: "span_context \<Rightarrow> jsval \<Rightarrow> span_context" where
  "setConsumerCorrelationId c v = c\<lparr>consumerCorrelationId := v\<rparr>"

text \<open>
  Modelled from the spec: \<^verbatim>\<open>./APMSpan\<close> is not in \<^verbatim>\<open>src/\<close>. A span exposes its
  context and a tag object with get and set. The tag object has own properties and
  properties inherited from its prototype; \<^verbatim>\<open>setTag\<close> writes an own property.
\<close>

record tag_object =
  own :: obj
  proto :: obj

record span =
  span_context_of :: span_context
  tags :: tag_object

definition getTags :: "span \<Rightarrow> tag_object" where
  "getTags sp = tags sp"

definition setTag :: "span \<Rightarrow> string \<Rightarrow> jsval \<Rightarrow> span" where
  "setTag sp k v = sp\<lparr>tags := (tags sp)\<lparr>own := set_prop (own (tags sp)) k v\<rparr>\<rparr>"

text \<open>A property read \<^verbatim>\<open>tags[k]\<close> sees own properties first, then inherited ones.\<close>

definition tag_lookup :: "tag_object \<Rightarrow> string \<Rightarrow> jsval" where
  "tag_lookup t k = (if hasOwnProperty (own t) k then get_prop (own t) k else get_prop (proto t) k)"

text \<open>
  Modelled from the spec: the trace type is not in \<^verbatim>\<open>src/\<close>. A trace is an ordered
  list of nodes whose first element is the root; a node has a span (or none) and a type.
  \<^verbatim>\<open>setNodeType(type, context, correlation)\<close> is, in the spec's words, the method
  that appends a typed node keyed by type, context and correlation info.
\<close>

record correlation_id =
  corr_value :: jsval
  corr_scope :: string

record trace_node =
  node_span :: "span option"
  nodeType :: "string option"
  node_context :: "span_context option"
  node_correlation :: "correlation_id option"

type_synonym trace = "trace_node list"

definition setNodeType :: "trace \<Rightarrow> string \<Rightarrow> span_context \<Rightarrow> correlation_id \<Rightarrow> trace" where
  "setNodeType tr ty c corr =
     tr @ [\<lparr>node_span = None, nodeType = Some ty, node_context = Some c,
            node_correlation = Some corr\<rparr>]"

text \<open>
  The state the operations work on: the store of plain objects (carriers, field
  objects), the store of traces, the next free object reference, the counter of the id
  generator, and the lines written with \<^verbatim>\<open>console.log\<close>.
\<close>

record state =
  heap :: "nat \<Rightarrow> obj"
  traces :: "nat \<Rightarrow> trace"
  next_ref :: nat
  idgen :: nat
  console :: "string list"

definition console_log :: "string \<Rightarrow> state \<Rightarrow> state" where
  "console_log msg s = s\<lparr>console := console s @ [msg]\<rparr>"

text \<open>
  Modelled from the spec: \<^verbatim>\<open>utils.generateSpanId\<close> is not in \<^verbatim>\<open>src/\<close>. The spec's
  id generator produces fresh, globally unique opaque identifiers: here the numeral of a
  counter that every call advances.
\<close>

definition mk_id :: "nat \<Rightarrow> jsval" where
  "mk_id n = JStr (digits n)"

definition generateSpanId :: "state \<Rightarrow> jsval \<times> state" where
  "generateSpanId s = (mk_id (idgen s), s\<lparr>idgen := Suc (idgen s)\<rparr>)"

text \<open>The identifiers the generator has handed out so far.\<close>

definition issued :: "state \<Rightarrow> jsval \<Rightarrow> bool" where
  "issued s v = (v \<in> set (map mk_id [0..<idgen s]))"

section \<open>The trace decorator (constructor, lines 39-54)\<close>

record deployment_meta_data =
  serviceName :: jsval
  buildStamp :: jsval

definition TRACE_DECORATOR :: "constants \<Rightarrow> deployment_meta_data \<Rightarrow> trace \<Rightarrow> trace" where
  "TRACE_DECORATOR K deploymentMetaData nodes =
     (case nodes of
        [] \<Rightarrow> nodes
      | rootNode # rest \<Rightarrow>
          (case node_span rootNode of
             None \<Rightarrow> nodes
           | Some sp \<Rightarrow>
               (let sp1 =
                      (if truthy (serviceName deploymentMetaData) \<and>
                          \<not> hasOwnProperty (own (getTags sp)) (PROP_SERVICE_NAME K)
                       then setTag sp (PROP_SERVICE_NAME K) (serviceName deploymentMetaData)
                       else sp);
                    sp2 =
                      (if truthy (buildStamp deploymentMetaData) \<and>
                          \<not> hasOwnProperty (own (getTags sp1)) (PROP_BUILD_STAMP K)
                       then setTag sp1 (PROP_BUILD_STAMP K) (buildStamp deploymentMetaData)
                       else sp1)
                in rootNode\<lparr>node_span := Some sp2\<rparr> # rest)))"

section \<open>startSpan (lines 103-107)\<close>

text \<open>
  \<^verbatim>\<open>new APMSpan(this, fieldsWithOperation)\<close>: the class is not in \<^verbatim>\<open>src/\<close>. Its
  constructor, with the tracer already supplied, is the parameter \<open>APMSpan\<close> of
  \<^verbatim>\<open>startSpan\<close>: from the reference it is handed and the state it finds, it returns
  the span and the state it leaves, or throws.

  \<^verbatim>\<open>fields || {}\<close> is the caller's value when it is truthy and a new empty object
  otherwise. The file is an ES module, hence strict code: the assignment of a property
  to a truthy primitive throws a TypeError.
\<close>

definition startSpan ::
  "(jsval \<Rightarrow> state \<Rightarrow> js_error + ('span \<times> state)) \<Rightarrow> jsval \<Rightarrow> jsval \<Rightarrow> state \<Rightarrow>
   js_error + ('span \<times> state)" where
  "startSpan APMSpan name fieldsArg s =
     (if truthy fieldsArg then
        (case fieldsArg of
           JRef a \<Rightarrow>
             APMSpan (JRef a)
               (s\<lparr>heap := (heap s)(a := set_prop (heap s a) ''operationName'' name)\<rparr>)
         | _ \<Rightarrow> Inl TypeError)
      else
        (let a = next_ref s
         in APMSpan (JRef a)
              (s\<lparr>heap := (heap s)(a := set_prop [] ''operationName'' name),
                 next_ref := Suc a\<rparr>)))"

section \<open>inject (lines 138-176)\<close>

datatype inject_arg = ArgContext span_context | ArgSpan span

text \<open>\<^verbatim>\<open>if (spanContext instanceof APMSpan) spanContext = spanContext.context()\<close>\<close>

fun resolve :: "inject_arg \<Rightarrow> span_context" where
  "resolve (ArgContext c) = c"
| "resolve (ArgSpan sp) = span_context_of sp"

definition injectHttpAndTextMap :: "constants \<Rightarrow> span_context \<Rightarrow> nat \<Rightarrow> state \<Rightarrow> state" where
  "injectHttpAndTextMap K spanContext a s =
     (let s1 = s\<lparr>heap := (heap s)(a := set_prop (heap s a) (CARRIER_TRACE_ID K) (traceId spanContext))\<rparr>;
          (cid, s2) = generateSpanId s1;
          s3 = s2\<lparr>heap := (heap s2)(a := set_prop (heap s2 a) (CARRIER_CORRELATION_ID K) cid)\<rparr>;
          s4 = (if truthy (transaction spanContext)
                then s3\<lparr>heap := (heap s3)(a := set_prop (heap s3 a) (CARRIER_TRANSACTION K)
                                                  (transaction spanContext))\<rparr>
                else s3);
          s5 = (if truthy (level spanContext)
                then s4\<lparr>heap := (heap s4)(a := set_prop (heap s4 a) (CARRIER_LEVEL K)
                                                  (level spanContext))\<rparr>
                else s4)
      in s5)"

text \<open>
  A carrier that passes both guards is a reference: the only truthy value whose
  \<^verbatim>\<open>typeof\<close> is \<^verbatim>\<open>'object'\<close>. The call \<^verbatim>\<open>getTrace().setNodeType(...)\<close> throws a
  TypeError when \<^verbatim>\<open>getTrace()\<close> is undefined.
\<close>

definition inject :: "constants \<Rightarrow> inject_arg \<Rightarrow> jsval \<Rightarrow> jsval \<Rightarrow> state \<Rightarrow> js_error + state" where
  "inject K arg format carrier s =
     (if \<not> truthy carrier then Inr (console_log ''Carrier should not be null!'' s)
      else if typeof carrier \<noteq> ''object'' then Inr (console_log ''Carrier is not object!'' s)
      else
        (case carrier of
           JRef a \<Rightarrow>
             (let spanContext = resolve arg;
                  s1 = (if format = FORMAT_HTTP_HEADERS K \<or> format = FORMAT_TEXT_MAP K
                        then injectHttpAndTextMap K spanContext a s
                        else console_log ''Inject unknown format!'' s)
              in (case trace_ref spanContext of
                    None \<Rightarrow> Inl TypeError
                  | Some t \<Rightarrow>
                      Inr (s1\<lparr>traces := (traces s1)
                              (t := setNodeType (traces s1 t) (NODE_TYPE_PRODUCER K) spanContext
                                      \<lparr>corr_value = get_prop (heap s1 a) (CARRIER_CORRELATION_ID K),
                                       corr_scope = CORR_ID_SCOPE_INTERACTION K\<rparr>)\<rparr>)))
         | _ \<Rightarrow> Inr s))"

section \<open>extract (lines 200-243)\<close>

text \<open>
  \<^verbatim>\<open>Object.keys(carrier)\<close> throws a TypeError on null and undefined and converts any
  other primitive to its wrapper object: no own keys for a boolean or a number, the
  indices for a string. \<^verbatim>\<open>carrier[objectKey]\<close> reads the property back.
\<close>

fun Object_keys :: "(nat \<Rightarrow> obj) \<Rightarrow> jsval \<Rightarrow> js_error + string list" where
  "Object_keys h JUndefined = Inl TypeError"
| "Object_keys h JNull = Inl TypeError"
| "Object_keys h (JBool b) = Inr []"
| "Object_keys h (JNum n) = Inr []"
| "Object_keys h (JStr str) = Inr (map digits [0..<length str])"
| "Object_keys h (JRef a) = Inr (map fst (h a))"

fun js_get :: "(nat \<Rightarrow> obj) \<Rightarrow> jsval \<Rightarrow> string \<Rightarrow> jsval" where
  "js_get h (JRef a) k = get_prop (h a) k"
| "js_get h (JStr str) k =
     get_prop (zip (map digits [0..<length str]) (map (\<lambda>c. JStr [c]) str)) k"
| "js_get h v k = JUndefined"

text \<open>The four local variables of \<^verbatim>\<open>_extractHttpAndTextMap\<close>.\<close>

record extract_vars =
  var_correlationId :: jsval
  var_traceId :: jsval
  var_level :: jsval
  var_transaction :: jsval

definition extract_step ::
  "(string \<Rightarrow> string) \<Rightarrow> constants \<Rightarrow> (nat \<Rightarrow> obj) \<Rightarrow> jsval \<Rightarrow> string \<Rightarrow> extract_vars \<Rightarrow>
   extract_vars" where
  "extract_step toUpperCase K h carrier objectKey vars =
     (let u = toUpperCase objectKey in
      if u = CARRIER_CORRELATION_ID K then vars\<lparr>var_correlationId := js_get h carrier objectKey\<rparr>
      else if u = CARRIER_TRACE_ID K then vars\<lparr>var_traceId := js_get h carrier objectKey\<rparr>
      else if u = CARRIER_TRANSACTION K then vars\<lparr>var_transaction := js_get h carrier objectKey\<rparr>
      else if u = CARRIER_LEVEL K then vars\<lparr>var_level := js_get h carrier objectKey\<rparr>
      else vars)"

definition extract_init :: extract_vars where
  "extract_init =
     \<lparr>var_correlationId = JNull, var_traceId = JUndefined, var_level = JUndefined,
      var_transaction = JUndefined\<rparr>"

definition extractHttpAndTextMap ::
  "(string \<Rightarrow> string) \<Rightarrow> constants \<Rightarrow> jsval \<Rightarrow> state \<Rightarrow> js_error + (span_context \<times> state)" where
  "extractHttpAndTextMap toUpperCase K carrier s =
     (case Object_keys (heap s) carrier of
        Inl e \<Rightarrow> Inl e
      | Inr ks \<Rightarrow>
          (let vars = fold (extract_step toUpperCase K (heap s) carrier) ks extract_init;
               (sid, s1) = generateSpanId s;
               spanContext = APMSpanContext sid (var_traceId vars) JUndefined
                               (var_transaction vars) (var_level vars)
           in Inr (setConsumerCorrelationId spanContext (var_correlationId vars), s1)))"

text \<open>The method \<^verbatim>\<open>extract\<close> of the tracer.\<close>

definition tracer_extract ::
  "(string \<Rightarrow> string) \<Rightarrow> constants \<Rightarrow> jsval \<Rightarrow> jsval \<Rightarrow> state \<Rightarrow>
   js_error + (span_context \<times> state)" where
  "tracer_extract toUpperCase K format carrier s =
     (if format = FORMAT_HTTP_HEADERS K \<or> format = FORMAT_TEXT_MAP K
      then extractHttpAndTextMap toUpperCase K carrier s
      else Inr (APMSpanContext JUndefined JUndefined JUndefined JUndefined JUndefined,
                console_log ''Extract unknown format'' s))"

section \<open>Derived definitions and example inputs\<close>

text \<open>The object a recognised inject leaves at the carrier's reference.\<close>

definition injected :: "constants \<Rightarrow> span_context \<Rightarrow> jsval \<Rightarrow> obj \<Rightarrow> obj" where
  "injected K c cid ob =
     (let o2 = set_prop (set_prop ob (CARRIER_TRACE_ID K) (traceId c)) (CARRIER_CORRELATION_ID K) cid;
          o3 = (if truthy (transaction c) then set_prop o2 (CARRIER_TRANSACTION K) (transaction c) else o2)
      in if truthy (level c) then set_prop o3 (CARRIER_LEVEL K) (level c) else o3)"

text \<open>An assignment of the constants, a context and a state to evaluate the operations on.\<close>

definition example_constants :: constants where
  "example_constants =
     \<lparr>FORMAT_HTTP_HEADERS = JStr ''http_headers'', FORMAT_TEXT_MAP = JStr ''text_map'',
      CARRIER_TRACE_ID = ''HWKAPMTRACEID'', CARRIER_CORRELATION_ID = ''HWKAPMID'',
      CARRIER_TRANSACTION = ''HWKAPMTXN'', CARRIER_LEVEL = ''HWKAPMLEVEL'',
      NODE_TYPE_PRODUCER = ''Producer'', CORR_ID_SCOPE_INTERACTION = ''Interaction'',
      PROP_SERVICE_NAME = ''service'', PROP_BUILD_STAMP = ''buildStamp''\<rparr>"

definition example_context :: span_context where
  "example_context =
     \<lparr>spanId = JStr ''0'', traceId = JStr ''t1'', parentId = JUndefined,
      transaction = JStr ''checkout'', level = JUndefined,
      consumerCorrelationId = JUndefined, trace_ref = Some 0\<rparr>"

definition example_state :: state where
  "example_state = \<lparr>heap = (\<lambda>a. []), traces = (\<lambda>t. []), next_ref = 1, idgen = 1, console = []\<rparr>"

text \<open>A state whose object 0 is a carrier that already holds two properties.\<close>

definition example_carrier_state :: state where
  "example_carrier_state =
     example_state\<lparr>heap := (\<lambda>a. [])(0 := [(''HWKAPMID'', JStr ''old''), (''x-other'', JNum 7)])\<rparr>"

text \<open>A state whose object 0 is a fields object that supplies an operation name.\<close>

definition example_fields_state :: state where
  "example_fields_state =
     example_state\<lparr>heap := (\<lambda>a. [])(0 := [(''operationName'', JStr ''B''), (''startTime'', JNum 5)])\<rparr>"

text \<open>
  Modelled from the spec: the constructor of \<^verbatim>\<open>APMSpan\<close> is not in \<^verbatim>\<open>src/\<close>. By the
  spec a span is constructible from the tracer and the fields, and
  \<^verbatim>\<open>startSpan("A")\<close> yields a span whose operation name is \<open>A\<close>: this constructor
  takes the operation name of the span from the fields object it is handed and writes
  nothing.
\<close>

record constructed_span =
  cs_operationName :: jsval
  cs_fields :: jsval

definition reading_APMSpan :: "jsval \<Rightarrow> state \<Rightarrow> js_error + (constructed_span \<times> state)" where
  "reading_APMSpan fieldsArg s =
     (case fieldsArg of
        JRef a \<Rightarrow>
          Inr (\<lparr>cs_operationName = get_prop (heap s a) ''operationName'',
                cs_fields = fieldsArg\<rparr>, s)
      | _ \<Rightarrow> Inl TypeError)"



text \<open>What the decorator does to the span of the root node.\<close>

definition decorate_span :: "constants \<Rightarrow> deployment_meta_data \<Rightarrow> span \<Rightarrow> span" where
  "decorate_span K md sp =
     (let sp1 = (if truthy (serviceName md) \<and> \<not> hasOwnProperty (own (tags sp)) (PROP_SERVICE_NAME K)
                 then setTag sp (PROP_SERVICE_NAME K) (serviceName md) else sp)
      in if truthy (buildStamp md) \<and> \<not> hasOwnProperty (own (tags sp1)) (PROP_BUILD_STAMP K)
         then setTag sp1 (PROP_BUILD_STAMP K) (buildStamp md) else sp1)"

text \<open>Deployment metadata, and a trace of two nodes whose root span has the service tag
  set by the application and inherits a build stamp from its prototype.\<close>

definition example_meta_data :: deployment_meta_data where
  "example_meta_data = \<lparr>serviceName = JStr ''other'', buildStamp = JStr ''123''\<rparr>"

definition example_span :: span where
  "example_span =
     \<lparr>span_context_of = example_context,
      tags = \<lparr>own = [(''service'', JStr ''checkout'')],
               proto = [(''buildStamp'', JStr ''inherited'')]\<rparr>\<rparr>"

definition example_root_node :: trace_node where
  "example_root_node =
     \<lparr>node_span = Some example_span, nodeType = None, node_context = None,
      node_correlation = None\<rparr>"

definition example_child_node :: trace_node where
  "example_child_node =
     \<lparr>node_span = Some (example_span\<lparr>tags := \<lparr>own = [], proto = []\<rparr>\<rparr>), nodeType = None,
      node_context = None, node_correlation = None\<rparr>"

definition example_trace :: trace where
  "example_trace = [example_root_node, example_child_node]"

text \<open>The value a scan of the keys \<open>ks\<close> leaves in a variable: the property under the
  last key whose upper-case form is \<open>name\<close>, or the initial value when there is none.\<close>

definition last_match ::
  "(string \<Rightarrow> string) \<Rightarrow> (string \<Rightarrow> jsval) \<Rightarrow> string list \<Rightarrow> string \<Rightarrow> jsval \<Rightarrow> jsval" where
  "last_match toUpperCase rd ks name dflt =
     (let ms = filter (\<lambda>k. toUpperCase k = name) ks
      in if ms = [] then dflt else rd (last ms))"

definition recovered :: "(string \<Rightarrow> string) \<Rightarrow> obj \<Rightarrow> string \<Rightarrow> jsval \<Rightarrow> jsval" where
  "recovered toUpperCase ob name dflt = last_match toUpperCase (get_prop ob) (map fst ob) name dflt"

definition roundtrip ::
  "(string \<Rightarrow> string) \<Rightarrow> constants \<Rightarrow> inject_arg \<Rightarrow> jsval \<Rightarrow> nat \<Rightarrow> state \<Rightarrow>
   js_error + span_context" where
  "roundtrip toUpperCase K arg f a s =
     (case inject K arg f (JRef a) s of
        Inl e \<Rightarrow> Inl e
      | Inr s1 \<Rightarrow> map_sum id fst (tracer_extract toUpperCase K f (JRef a) s1))"

text \<open>On an object with distinct keys the scan depends only on the upper-case forms of
  the keys and on the values.\<close>

definition folded :: "(string \<Rightarrow> string) \<Rightarrow> obj \<Rightarrow> obj" where
  "folded toUpperCase ob = map (\<lambda>p. (toUpperCase (fst p), snd p)) ob"

text \<open>A state with two carriers that differ only in the letter case of their keys, and a
  context whose transaction is the empty string.\<close>

definition example_extract_state :: state where
  "example_extract_state =
     example_state\<lparr>heap := (\<lambda>a. [])
       (0 := [(''hwkapmtraceid'', JStr ''t9''), (''HwkApmId'', JStr ''c7''),
              (''hwkapmtxn'', JStr ''buy''), (''HwkApmLevel'', JStr ''All''), (''x-other'', JNum 1)],
        2 := [(''HWKAPMTRACEID'', JStr ''t9''), (''HWKAPMID'', JStr ''c7''),
              (''HWKAPMTXN'', JStr ''buy''), (''HWKAPMLEVEL'', JStr ''All''), (''X-Other'', JNum 1)])\<rparr>"

definition empty_transaction_context :: span_context where
  "empty_transaction_context = example_context\<lparr>transaction := JStr ''''\<rparr>"

section \<open>Basic facts\<close>

lemma get_prop_set_prop:
  "get_prop (set_prop ob k v) k' = (if k' = k then v else get_prop ob k')"
  by (simp add: get_prop_def set_prop_def update_conv')

lemma hasOwnProperty_set_prop:
  "hasOwnProperty (set_prop ob k v) k' = (k' = k \<or> hasOwnProperty ob k')"
  by (simp add: hasOwnProperty_def set_prop_def update_conv')

lemma digit_inj: "a < 10 \<Longrightarrow> b < 10 \<Longrightarrow> digit a = digit b \<Longrightarrow> a = b"
proof -
  assume a: "a < 10" and b: "b < 10" and e: "digit a = digit b"
  have d: "distinct ''0123456789''" by simp
  have "length ''0123456789'' = 10" by simp
  with a b e d show ?thesis
    unfolding digit_def by (metis nth_eq_iff_index_eq)
qed

lemma digits_nonempty: "digits n \<noteq> []"
  by (subst digits.simps) simp

lemma digits_last: "last (digits n) = digit (n mod 10)"
  by (subst digits.simps) simp

lemma digits_butlast: "butlast (digits n) = (if n < 10 then [] else digits (n div 10))"
  by (subst digits.simps) simp

lemma digits_inj: "digits m = digits n \<Longrightarrow> m = n"
proof (induction m arbitrary: n rule: digits.induct)
  case (1 m)
  from "1.prems" have l: "digit (m mod 10) = digit (n mod 10)"
    by (metis digits_last)
  then have lm: "m mod 10 = n mod 10"
    by (intro digit_inj) simp_all
  from "1.prems" have b: "butlast (digits m) = butlast (digits n)" by simp
  show ?case
  proof (cases "m < 10")
    case True
    with b have "n < 10"
      by (auto simp: digits_butlast digits_nonempty digits_nonempty[symmetric] split: if_splits)
    with True lm show ?thesis by simp
  next
    case False
    with b have n: "\<not> n < 10" and e: "digits (m div 10) = digits (n div 10)"
      by (auto simp: digits_butlast digits_nonempty digits_nonempty[symmetric] split: if_splits)
    from "1.IH"[OF False e] have "m div 10 = n div 10" .
    with lm show ?thesis by (metis div_mult_mod_eq)
  qed
qed

lemma mk_id_inj: "mk_id m = mk_id n \<longleftrightarrow> m = n"
  by (auto simp: mk_id_def dest: digits_inj)

lemma issued_iff: "issued s v \<longleftrightarrow> (\<exists>j<idgen s. v = mk_id j)"
  by (auto simp: issued_def)

lemma empty_object [simp]: "get_prop [] k = JUndefined" "hasOwnProperty [] k = False"
  by (simp_all add: get_prop_def hasOwnProperty_def)

lemma wf_constantsD:
  assumes "wf_constants K"
  shows "CARRIER_CORRELATION_ID K \<noteq> CARRIER_TRACE_ID K"
    and "CARRIER_CORRELATION_ID K \<noteq> CARRIER_TRANSACTION K"
    and "CARRIER_CORRELATION_ID K \<noteq> CARRIER_LEVEL K"
    and "CARRIER_TRACE_ID K \<noteq> CARRIER_TRANSACTION K"
    and "CARRIER_TRACE_ID K \<noteq> CARRIER_LEVEL K"
    and "CARRIER_TRANSACTION K \<noteq> CARRIER_LEVEL K"
  using assms by (simp_all add: wf_constants_def carrier_keys_def)

lemma upper_case_keysD:
  assumes "upper_case_keys up K"
  shows "up (CARRIER_CORRELATION_ID K) = CARRIER_CORRELATION_ID K"
    and "up (CARRIER_TRACE_ID K) = CARRIER_TRACE_ID K"
    and "up (CARRIER_TRANSACTION K) = CARRIER_TRANSACTION K"
    and "up (CARRIER_LEVEL K) = CARRIER_LEVEL K"
  using assms by (simp_all add: upper_case_keys_def carrier_keys_def)

lemma wf_example_constants: "wf_constants example_constants"
  by (simp add: wf_constants_def carrier_keys_def example_constants_def)

lemma upper_case_example_constants: "upper_case_keys ascii_toUpperCase example_constants"
  by (simp add: upper_case_keys_def carrier_keys_def example_constants_def
      ascii_toUpperCase_def upper_char_def letter_pairs_def)

lemma agrees_on_ascii_ascii: "agrees_on_ascii ascii_toUpperCase"
  by (simp add: agrees_on_ascii_def)

lemma mk_id_numerals:
  "mk_id 0 = JStr ''0''" "mk_id (Suc 0) = JStr ''1''" "mk_id 1 = JStr ''1''" "mk_id 2 = JStr ''2''"
  by (simp_all add: mk_id_def digits.simps digit_def)

lemma example_constants_simps:
  "FORMAT_HTTP_HEADERS example_constants = JStr ''http_headers''"
  "FORMAT_TEXT_MAP example_constants = JStr ''text_map''"
  "CARRIER_TRACE_ID example_constants = ''HWKAPMTRACEID''"
  "CARRIER_CORRELATION_ID example_constants = ''HWKAPMID''"
  "CARRIER_TRANSACTION example_constants = ''HWKAPMTXN''"
  "CARRIER_LEVEL example_constants = ''HWKAPMLEVEL''"
  "NODE_TYPE_PRODUCER example_constants = ''Producer''"
  "CORR_ID_SCOPE_INTERACTION example_constants = ''Interaction''"
  "PROP_SERVICE_NAME example_constants = ''service''"
  "PROP_BUILD_STAMP example_constants = ''buildStamp''"
  by (simp_all add: example_constants_def)

lemma example_context_simps:
  "spanId example_context = JStr ''0''"
  "traceId example_context = JStr ''t1''"
  "parentId example_context = JUndefined"
  "transaction example_context = JStr ''checkout''"
  "level example_context = JUndefined"
  "consumerCorrelationId example_context = JUndefined"
  "trace_ref example_context = Some 0"
  by (simp_all add: example_context_def)

lemma example_state_simps:
  "heap example_state a = []"
  "traces example_state t = []"
  "next_ref example_state = 1"
  "idgen example_state = 1"
  "console example_state = []"
  by (simp_all add: example_state_def)

section \<open>inject on a recognised format\<close>

lemma injectHttpAndTextMap_eq:
  "injectHttpAndTextMap K c a s =
     s\<lparr>heap := (heap s)(a := injected K c (mk_id (idgen s)) (heap s a)), idgen := Suc (idgen s)\<rparr>"
  by (simp add: injectHttpAndTextMap_def generateSpanId_def injected_def Let_def)

lemma inject_supported:
  assumes "supported K f" and "trace_ref (resolve arg) = Some t"
  shows "inject K arg f (JRef a) s =
     Inr (s\<lparr>heap := (heap s)(a := injected K (resolve arg) (mk_id (idgen s)) (heap s a)),
            idgen := Suc (idgen s),
            traces := (traces s)(t := setNodeType (traces s t) (NODE_TYPE_PRODUCER K) (resolve arg)
               \<lparr>corr_value = get_prop (injected K (resolve arg) (mk_id (idgen s)) (heap s a)) (CARRIER_CORRELATION_ID K),
                corr_scope = CORR_ID_SCOPE_INTERACTION K\<rparr>)\<rparr>)"
  using assms by (simp add: inject_def supported_def injectHttpAndTextMap_eq Let_def)

lemma injected_get:
  assumes "wf_constants K"
  shows "get_prop (injected K c cid ob) (CARRIER_TRACE_ID K) = traceId c"
    and "get_prop (injected K c cid ob) (CARRIER_CORRELATION_ID K) = cid"
    and "get_prop (injected K c cid ob) (CARRIER_TRANSACTION K) =
           (if truthy (transaction c) then transaction c else get_prop ob (CARRIER_TRANSACTION K))"
    and "get_prop (injected K c cid ob) (CARRIER_LEVEL K) =
           (if truthy (level c) then level c else get_prop ob (CARRIER_LEVEL K))"
    and "hasOwnProperty (injected K c cid ob) (CARRIER_TRANSACTION K) =
           (truthy (transaction c) \<or> hasOwnProperty ob (CARRIER_TRANSACTION K))"
    and "hasOwnProperty (injected K c cid ob) (CARRIER_LEVEL K) =
           (truthy (level c) \<or> hasOwnProperty ob (CARRIER_LEVEL K))"
  using wf_constantsD[OF assms]
  by (simp_all add: injected_def Let_def get_prop_set_prop hasOwnProperty_set_prop)

lemma not_issued_next: "\<not> issued s (mk_id (idgen s))"
  by (simp add: issued_iff mk_id_inj)

text \<open>
  C1: for a recognised format, a context with trace id \<open>T\<close> and an object carrier,
  \<^verbatim>\<open>inject\<close> returns, and afterwards the carrier holds \<open>T\<close> under the trace-id key
  and, under the correlation-id key, the identifier the generator minted in this call:
  one that had not been issued before, that is not the context's own id (an id issued
  earlier), and that differs from the one a second inject of the same context and
  format writes. The transaction and level keys are written exactly when the context's
  value is truthy, hence only if the context defines them; otherwise they are left as
  they were.
\<close>

theorem inject_writes_carrier:
  assumes wf: "wf_constants K" and f: "supported K f" and t: "trace_ref (resolve arg) = Some t"
  shows "\<exists>s1 s2.
     inject K arg f (JRef a) s = Inr s1 \<and> inject K arg f (JRef b) s1 = Inr s2 \<and>
     get_prop (heap s1 a) (CARRIER_TRACE_ID K) = traceId (resolve arg) \<and>
     get_prop (heap s1 a) (CARRIER_CORRELATION_ID K) = mk_id (idgen s) \<and>
     \<not> issued s (mk_id (idgen s)) \<and> issued s1 (mk_id (idgen s)) \<and>
     (issued s (spanId (resolve arg)) \<longrightarrow>
        get_prop (heap s1 a) (CARRIER_CORRELATION_ID K) \<noteq> spanId (resolve arg)) \<and>
     get_prop (heap s2 b) (CARRIER_CORRELATION_ID K) \<noteq> get_prop (heap s1 a) (CARRIER_CORRELATION_ID K) \<and>
     hasOwnProperty (heap s1 a) (CARRIER_TRANSACTION K) =
        (truthy (transaction (resolve arg)) \<or> hasOwnProperty (heap s a) (CARRIER_TRANSACTION K)) \<and>
     get_prop (heap s1 a) (CARRIER_TRANSACTION K) =
        (if truthy (transaction (resolve arg)) then transaction (resolve arg)
         else get_prop (heap s a) (CARRIER_TRANSACTION K)) \<and>
     hasOwnProperty (heap s1 a) (CARRIER_LEVEL K) =
        (truthy (level (resolve arg)) \<or> hasOwnProperty (heap s a) (CARRIER_LEVEL K)) \<and>
     get_prop (heap s1 a) (CARRIER_LEVEL K) =
        (if truthy (level (resolve arg)) then level (resolve arg)
         else get_prop (heap s a) (CARRIER_LEVEL K))"
proof -
  let ?c = "resolve arg"
  obtain s1 where s1: "inject K arg f (JRef a) s = Inr s1"
    and h1: "heap s1 a = injected K ?c (mk_id (idgen s)) (heap s a)"
    and g1: "idgen s1 = Suc (idgen s)"
    by (simp add: inject_supported[OF f t])
  obtain s2 where s2: "inject K arg f (JRef b) s1 = Inr s2"
    and h2: "heap s2 b = injected K ?c (mk_id (idgen s1)) (heap s1 b)"
    by (simp add: inject_supported[OF f t])
  have fresh: "issued s (spanId ?c) \<longrightarrow> mk_id (idgen s) \<noteq> spanId ?c"
    using not_issued_next[of s] by auto
  have iss: "issued s1 (mk_id (idgen s))"
    by (auto simp: issued_iff g1)
  have diff: "mk_id (idgen s1) \<noteq> mk_id (idgen s)"
    by (simp add: g1 mk_id_inj)
  show ?thesis
    using s1 s2 fresh iss diff not_issued_next[of s]
    by (simp add: h1 h2 injected_get[OF wf])
qed

theorem inject_writes_carrier_witness:
  "wf_constants example_constants \<and>
   supported example_constants (JStr ''text_map'') \<and>
   trace_ref (resolve (ArgContext example_context)) = Some 0 \<and>
   issued example_state (spanId example_context) \<and>
   (\<exists>s1 s2.
      inject example_constants (ArgContext example_context) (JStr ''text_map'') (JRef 0) example_state = Inr s1 \<and>
      inject example_constants (ArgContext example_context) (JStr ''text_map'') (JRef 0) s1 = Inr s2 \<and>
      get_prop (heap s1 0) ''HWKAPMTRACEID'' = JStr ''t1'' \<and>
      get_prop (heap s1 0) ''HWKAPMID'' = JStr ''1'' \<and>
      get_prop (heap s1 0) ''HWKAPMID'' \<noteq> spanId example_context \<and>
      get_prop (heap s2 0) ''HWKAPMID'' \<noteq> JStr ''1'' \<and>
      get_prop (heap s1 0) ''HWKAPMTXN'' = JStr ''checkout'' \<and>
      \<not> hasOwnProperty (heap s1 0) ''HWKAPMLEVEL'')"
proof -
  have wf: "wf_constants example_constants" by (rule wf_example_constants)
  have sup: "supported example_constants (JStr ''text_map'')"
    by (simp add: supported_def example_constants_simps)
  have tr: "trace_ref (resolve (ArgContext example_context)) = Some 0"
    by (simp add: example_context_simps)
  have iss: "issued example_state (spanId example_context)"
    by (simp add: issued_def example_state_simps example_context_simps mk_id_numerals)
  from inject_writes_carrier[OF wf sup tr, of 0 example_state 0]
  obtain s1 s2 where
    "inject example_constants (ArgContext example_context) (JStr ''text_map'') (JRef 0) example_state = Inr s1"
    "inject example_constants (ArgContext example_context) (JStr ''text_map'') (JRef 0) s1 = Inr s2"
    "get_prop (heap s1 0) ''HWKAPMTRACEID'' = JStr ''t1''"
    "get_prop (heap s1 0) ''HWKAPMID'' = JStr ''1''"
    "get_prop (heap s1 0) ''HWKAPMID'' \<noteq> spanId example_context"
    "get_prop (heap s2 0) ''HWKAPMID'' \<noteq> JStr ''1''"
    "get_prop (heap s1 0) ''HWKAPMTXN'' = JStr ''checkout''"
    "\<not> hasOwnProperty (heap s1 0) ''HWKAPMLEVEL''"
    using iss
    by (auto simp: example_constants_simps example_context_simps example_state_simps mk_id_numerals)
  with wf sup tr iss show ?thesis by blast
qed

section \<open>inject: rejected carriers and unknown formats\<close>

lemma console_log_fields:
  "heap (console_log m s) = heap s"
  "traces (console_log m s) = traces s"
  "next_ref (console_log m s) = next_ref s"
  "idgen (console_log m s) = idgen s"
  "console (console_log m s) = console s @ [m]"
  by (simp_all add: console_log_def)

text \<open>The two guards of \<^verbatim>\<open>inject\<close> together reject exactly the values that are not
  references to objects.\<close>

lemma carrier_guard_iff:
  "(\<not> truthy carrier \<or> typeof carrier \<noteq> ''object'') \<longleftrightarrow> (\<forall>a. carrier \<noteq> JRef a)"
  by (cases carrier) simp_all

text \<open>
  C6: whatever the format and the context (even one without a trace), \<^verbatim>\<open>inject\<close>
  with a falsy carrier or a carrier that is not an object returns normally; it adds one
  diagnostic line to the console and changes neither the store of objects, nor any
  trace (no node is appended), nor the id generator. The context is a value the
  operation only reads.
\<close>

theorem inject_invalid_carrier:
  assumes "\<not> truthy carrier \<or> typeof carrier \<noteq> ''object''"
  shows "\<exists>s'. inject K arg f carrier s = Inr s' \<and>
           heap s' = heap s \<and> traces s' = traces s \<and>
           idgen s' = idgen s \<and> next_ref s' = next_ref s \<and>
           console s' = console s @ [if \<not> truthy carrier then ''Carrier should not be null!''
                                     else ''Carrier is not object!'']"
  using assms by (auto simp: inject_def console_log_fields)

theorem inject_invalid_carrier_witness:
  "typeof (JNum 42) \<noteq> ''object'' \<and> \<not> truthy JNull \<and>
   (\<exists>s'. inject example_constants (ArgContext example_context) (JStr ''text_map'') (JNum 42)
            example_state = Inr s' \<and>
          heap s' = heap example_state \<and> traces s' = traces example_state \<and>
          console s' = [''Carrier is not object!'']) \<and>
   (\<exists>s'. inject example_constants (ArgContext example_context) (JStr ''text_map'') JNull
            example_state = Inr s' \<and>
          heap s' = heap example_state \<and> traces s' = traces example_state \<and>
          console s' = [''Carrier should not be null!''])"
proof -
  have a: "\<not> truthy (JNum 42) \<or> typeof (JNum 42) \<noteq> ''object''" by simp
  have b: "\<not> truthy JNull \<or> typeof JNull \<noteq> ''object''" by simp
  from inject_invalid_carrier[OF a, of example_constants "ArgContext example_context"
      "JStr ''text_map''" example_state]
  have 1: "\<exists>s'. inject example_constants (ArgContext example_context) (JStr ''text_map'') (JNum 42)
            example_state = Inr s' \<and>
          heap s' = heap example_state \<and> traces s' = traces example_state \<and>
          console s' = [''Carrier is not object!'']"
    by (auto simp: example_state_simps)
  from inject_invalid_carrier[OF b, of example_constants "ArgContext example_context"
      "JStr ''text_map''" example_state]
  have 2: "\<exists>s'. inject example_constants (ArgContext example_context) (JStr ''text_map'') JNull
            example_state = Inr s' \<and>
          heap s' = heap example_state \<and> traces s' = traces example_state \<and>
          console s' = [''Carrier should not be null!'']"
    by (auto simp: example_state_simps)
  from 1 2 show ?thesis by simp
qed

text \<open>
  C4: for a format that is not recognised, an object carrier and a context that has an
  owning trace, \<^verbatim>\<open>inject\<close> returns normally and leaves every object of the store, the
  carrier included, as it was; it writes one diagnostic, and it still appends to the
  owning trace a node of the PRODUCER type for the context, with the correlation value
  read from the carrier and the interaction scope. No other trace changes.
\<close>

theorem inject_unknown_format:
  assumes "\<not> supported K f" and "trace_ref (resolve arg) = Some t"
  shows "\<exists>s'. inject K arg f (JRef a) s = Inr s' \<and>
           heap s' = heap s \<and>
           traces s' t = traces s t @
             [\<lparr>node_span = None, nodeType = Some (NODE_TYPE_PRODUCER K),
               node_context = Some (resolve arg),
               node_correlation =
                 Some \<lparr>corr_value = get_prop (heap s a) (CARRIER_CORRELATION_ID K),
                       corr_scope = CORR_ID_SCOPE_INTERACTION K\<rparr>\<rparr>] \<and>
           (\<forall>u. u \<noteq> t \<longrightarrow> traces s' u = traces s u) \<and>
           idgen s' = idgen s \<and> next_ref s' = next_ref s \<and>
           console s' = console s @ [''Inject unknown format!'']"
  using assms
  by (simp add: inject_def supported_def console_log_fields setNodeType_def Let_def)

theorem inject_unknown_format_witness:
  "\<not> supported example_constants (JStr ''binary'') \<and>
   trace_ref (resolve (ArgContext example_context)) = Some 0 \<and>
   (\<exists>s'. inject example_constants (ArgContext example_context) (JStr ''binary'') (JRef 0)
            example_carrier_state = Inr s' \<and>
      heap s' 0 = [(''HWKAPMID'', JStr ''old''), (''x-other'', JNum 7)] \<and>
      traces s' 0 =
        [\<lparr>node_span = None, nodeType = Some ''Producer'', node_context = Some example_context,
          node_correlation = Some \<lparr>corr_value = JStr ''old'', corr_scope = ''Interaction''\<rparr>\<rparr>] \<and>
      console s' = [''Inject unknown format!''])"
proof -
  have f: "\<not> supported example_constants (JStr ''binary'')"
    by (simp add: supported_def example_constants_simps)
  have tr: "trace_ref (resolve (ArgContext example_context)) = Some 0"
    by (simp add: example_context_simps)
  from inject_unknown_format[OF f tr, of 0 example_carrier_state]
  obtain s' where
    "inject example_constants (ArgContext example_context) (JStr ''binary'') (JRef 0)
            example_carrier_state = Inr s'"
    "heap s' 0 = [(''HWKAPMID'', JStr ''old''), (''x-other'', JNum 7)]"
    "traces s' 0 =
        [\<lparr>node_span = None, nodeType = Some ''Producer'', node_context = Some example_context,
          node_correlation = Some \<lparr>corr_value = JStr ''old'', corr_scope = ''Interaction''\<rparr>\<rparr>]"
    "console s' = [''Inject unknown format!'']"
    by (auto simp: example_carrier_state_def example_state_simps example_constants_simps
        get_prop_def)
  with f tr show ?thesis by blast
qed

section \<open>extract on an unknown format\<close>

text \<open>
  C5: for a format that is not recognised and any carrier whatever (null included),
  \<^verbatim>\<open>extract\<close> returns normally; its result is a context object, built by the
  constructor without arguments, none of whose fields holds a value: no trace id, no
  span id, no correlation id. Nothing is read from the carrier and one diagnostic is
  written.
\<close>

theorem extract_unknown_format:
  assumes "\<not> supported K f"
  shows "tracer_extract up K f carrier s =
     Inr (\<lparr>spanId = JUndefined, traceId = JUndefined, parentId = JUndefined,
           transaction = JUndefined, level = JUndefined,
           consumerCorrelationId = JUndefined, trace_ref = None\<rparr>,
          console_log ''Extract unknown format'' s)"
  using assms by (simp add: tracer_extract_def supported_def APMSpanContext_def)

theorem extract_unknown_format_witness:
  "\<not> supported example_constants (JStr ''binary'') \<and>
   tracer_extract ascii_toUpperCase example_constants (JStr ''binary'') JNull example_state =
     Inr (\<lparr>spanId = JUndefined, traceId = JUndefined, parentId = JUndefined,
           transaction = JUndefined, level = JUndefined,
           consumerCorrelationId = JUndefined, trace_ref = None\<rparr>,
          console_log ''Extract unknown format'' example_state)"
proof -
  have f: "\<not> supported example_constants (JStr ''binary'')"
    by (simp add: supported_def example_constants_simps)
  from extract_unknown_format[OF f] f show ?thesis by simp
qed

section \<open>startSpan\<close>


lemma example_fields_state_simps:
  "heap example_fields_state 0 = [(''operationName'', JStr ''B''), (''startTime'', JNum 5)]"
  "traces example_fields_state = traces example_state"
  "next_ref example_fields_state = 1"
  "idgen example_fields_state = 1"
  "console example_fields_state = []"
  by (simp_all add: example_fields_state_def example_state_simps)

lemma startSpan_object:
  "startSpan APMSpan name (JRef a) s =
     APMSpan (JRef a) (s\<lparr>heap := (heap s)(a := set_prop (heap s a) ''operationName'' name)\<rparr>)"
  by (simp add: startSpan_def)

lemma example_fields_updated:
  "set_prop (heap example_fields_state 0) ''operationName'' (JStr ''A'') =
     [(''operationName'', JStr ''A''), (''startTime'', JNum 5)]"
  by (simp add: example_fields_state_simps set_prop_def)

text \<open>
  C9 fails on the code: called with the name \<open>A\<close> and a fields object that supplies
  the operation name \<open>B\<close>, \<^verbatim>\<open>startSpan\<close> hands every constructor an object whose
  operation name is \<open>A\<close>, and the span of the constructor that reads its operation name
  from the fields has the operation name \<open>A\<close>. The operation name the caller supplied,
  which the comment of the method documents as the name to use for the new span, is
  overwritten before the span is constructed.
\<close>

theorem startSpan_overwrites_operationName:
  "get_prop (heap example_fields_state 0) ''operationName'' = JStr ''B'' \<and>
   startSpan APMSpan (JStr ''A'') (JRef 0) example_fields_state =
     APMSpan (JRef 0)
       (example_fields_state\<lparr>heap := (heap example_fields_state)
          (0 := [(''operationName'', JStr ''A''), (''startTime'', JNum 5)])\<rparr>) \<and>
   map_sum id (cs_operationName \<circ> fst)
     (startSpan reading_APMSpan (JStr ''A'') (JRef 0) example_fields_state) = Inr (JStr ''A'')"
proof -
  have 1: "get_prop (heap example_fields_state 0) ''operationName'' = JStr ''B''"
    by (simp add: example_fields_state_simps get_prop_def)
  have 2: "startSpan APMSpan (JStr ''A'') (JRef 0) example_fields_state =
     APMSpan (JRef 0)
       (example_fields_state\<lparr>heap := (heap example_fields_state)
          (0 := [(''operationName'', JStr ''A''), (''startTime'', JNum 5)])\<rparr>)"
    by (simp only: startSpan_object example_fields_updated)
  have 3: "map_sum id (cs_operationName \<circ> fst)
     (startSpan reading_APMSpan (JStr ''A'') (JRef 0) example_fields_state) = Inr (JStr ''A'')"
    by (simp add: startSpan_object reading_APMSpan_def get_prop_set_prop)
  from 1 2 3 show ?thesis by (intro conjI)
qed




section \<open>The trace decorator\<close>

lemma decorator_Nil: "TRACE_DECORATOR K md [] = []"
  by (simp add: TRACE_DECORATOR_def)

lemma decorator_no_span:
  "node_span n = None \<Longrightarrow> TRACE_DECORATOR K md (n # rest) = n # rest"
  by (simp add: TRACE_DECORATOR_def)

lemma decorator_span:
  "node_span n = Some sp \<Longrightarrow>
   TRACE_DECORATOR K md (n # rest) = n\<lparr>node_span := Some (decorate_span K md sp)\<rparr> # rest"
  by (simp add: TRACE_DECORATOR_def decorate_span_def getTags_def Let_def)

lemma decorator_tl: "tl (TRACE_DECORATOR K md nodes) = tl nodes"
  by (cases nodes; cases "node_span (hd nodes)")
     (simp_all add: decorator_Nil decorator_no_span decorator_span)

lemma decorator_length: "length (TRACE_DECORATOR K md nodes) = length nodes"
  by (cases nodes; cases "node_span (hd nodes)")
     (simp_all add: decorator_Nil decorator_no_span decorator_span)

lemma setTag_simps:
  "span_context_of (setTag sp k v) = span_context_of sp"
  "proto (tags (setTag sp k v)) = proto (tags sp)"
  "own (tags (setTag sp k v)) = set_prop (own (tags sp)) k v"
  by (simp_all add: setTag_def)

lemma decorate_span_frame:
  "span_context_of (decorate_span K md sp) = span_context_of sp"
  "proto (tags (decorate_span K md sp)) = proto (tags sp)"
  by (simp_all add: decorate_span_def Let_def setTag_simps)

lemma decorate_span_keeps:
  assumes "hasOwnProperty (own (tags sp)) k"
  shows "hasOwnProperty (own (tags (decorate_span K md sp))) k"
    and "get_prop (own (tags (decorate_span K md sp))) k = get_prop (own (tags sp)) k"
  using assms
  by (auto simp: decorate_span_def Let_def setTag_simps hasOwnProperty_set_prop get_prop_set_prop)

lemma decorate_span_other:
  assumes "k \<noteq> PROP_SERVICE_NAME K" and "k \<noteq> PROP_BUILD_STAMP K"
  shows "hasOwnProperty (own (tags (decorate_span K md sp))) k = hasOwnProperty (own (tags sp)) k"
    and "get_prop (own (tags (decorate_span K md sp))) k = get_prop (own (tags sp)) k"
  using assms
  by (auto simp: decorate_span_def Let_def setTag_simps hasOwnProperty_set_prop get_prop_set_prop)

lemma decorate_span_service:
  assumes "truthy (serviceName md)" and "\<not> hasOwnProperty (own (tags sp)) (PROP_SERVICE_NAME K)"
  shows "get_prop (own (tags (decorate_span K md sp))) (PROP_SERVICE_NAME K) = serviceName md"
    and "hasOwnProperty (own (tags (decorate_span K md sp))) (PROP_SERVICE_NAME K)"
  using assms
  by (auto simp: decorate_span_def Let_def setTag_simps hasOwnProperty_set_prop get_prop_set_prop)

lemma decorate_span_build:
  assumes "truthy (buildStamp md)" and "\<not> hasOwnProperty (own (tags sp)) (PROP_BUILD_STAMP K)"
    and "PROP_SERVICE_NAME K \<noteq> PROP_BUILD_STAMP K"
  shows "get_prop (own (tags (decorate_span K md sp))) (PROP_BUILD_STAMP K) = buildStamp md"
    and "hasOwnProperty (own (tags (decorate_span K md sp))) (PROP_BUILD_STAMP K)"
  using assms
  by (auto simp: decorate_span_def Let_def setTag_simps hasOwnProperty_set_prop get_prop_set_prop)

lemma decorate_span_absent:
  assumes "PROP_SERVICE_NAME K \<noteq> PROP_BUILD_STAMP K"
  shows "\<not> truthy (serviceName md) \<Longrightarrow>
           hasOwnProperty (own (tags (decorate_span K md sp))) (PROP_SERVICE_NAME K) =
           hasOwnProperty (own (tags sp)) (PROP_SERVICE_NAME K)"
    and "\<not> truthy (buildStamp md) \<Longrightarrow>
           hasOwnProperty (own (tags (decorate_span K md sp))) (PROP_BUILD_STAMP K) =
           hasOwnProperty (own (tags sp)) (PROP_BUILD_STAMP K)"
  using assms
  by (auto simp: decorate_span_def Let_def setTag_simps hasOwnProperty_set_prop get_prop_set_prop)

lemma decorate_span_idem: "decorate_span K md (decorate_span K md sp) = decorate_span K md sp"
  by (auto simp: decorate_span_def Let_def setTag_simps hasOwnProperty_set_prop)

lemma decorator_idem:
  "TRACE_DECORATOR K md (TRACE_DECORATOR K md nodes) = TRACE_DECORATOR K md nodes"
proof (cases nodes)
  case Nil
  then show ?thesis by (simp add: decorator_Nil)
next
  case (Cons n rest)
  show ?thesis
  proof (cases "node_span n")
    case None
    with Cons show ?thesis by (simp add: decorator_no_span)
  next
    case (Some sp)
    with Cons show ?thesis
      by (simp add: decorator_span decorate_span_idem)
  qed
qed

lemma example_span_simps:
  "own (tags example_span) = [(''service'', JStr ''checkout'')]"
  "proto (tags example_span) = [(''buildStamp'', JStr ''inherited'')]"
  "node_span example_root_node = Some example_span"
  "serviceName example_meta_data = JStr ''other''"
  "buildStamp example_meta_data = JStr ''123''"
  by (simp_all add: example_span_def example_root_node_def example_meta_data_def)

text \<open>
  C7: the decorator returns the empty trace and a trace whose root node has no span
  unchanged; it never changes the length of the trace nor any node after the first, and
  of the root node it changes only the span. In the span only own tags change: a tag
  that is an own property keeps its value (no caller-set tag is overwritten), tags
  other than the two metadata tags are untouched, and a metadata tag is set to the
  metadata value when that value is present (truthy) and the key is not an own property
  of the tag object, also when the key is inherited from the prototype. Applying the
  decorator twice gives the same trace as applying it once.
\<close>

theorem trace_decorator_root_only:
  "TRACE_DECORATOR K md [] = [] \<and>
   (node_span n = None \<longrightarrow> TRACE_DECORATOR K md (n # rest) = n # rest) \<and>
   length (TRACE_DECORATOR K md nodes) = length nodes \<and>
   tl (TRACE_DECORATOR K md nodes) = tl nodes \<and>
   TRACE_DECORATOR K md (TRACE_DECORATOR K md nodes) = TRACE_DECORATOR K md nodes \<and>
   (node_span n = Some sp \<longrightarrow>
      (\<exists>sp'. TRACE_DECORATOR K md (n # rest) = n\<lparr>node_span := Some sp'\<rparr> # rest \<and>
         span_context_of sp' = span_context_of sp \<and>
         proto (tags sp') = proto (tags sp) \<and>
         (\<forall>k. hasOwnProperty (own (tags sp)) k \<longrightarrow>
               hasOwnProperty (own (tags sp')) k \<and>
               get_prop (own (tags sp')) k = get_prop (own (tags sp)) k \<and>
               tag_lookup (tags sp') k = tag_lookup (tags sp) k) \<and>
         (\<forall>k. k \<noteq> PROP_SERVICE_NAME K \<and> k \<noteq> PROP_BUILD_STAMP K \<longrightarrow>
               hasOwnProperty (own (tags sp')) k = hasOwnProperty (own (tags sp)) k \<and>
               tag_lookup (tags sp') k = tag_lookup (tags sp) k) \<and>
         (truthy (serviceName md) \<and> \<not> hasOwnProperty (own (tags sp)) (PROP_SERVICE_NAME K) \<longrightarrow>
               hasOwnProperty (own (tags sp')) (PROP_SERVICE_NAME K) \<and>
               tag_lookup (tags sp') (PROP_SERVICE_NAME K) = serviceName md) \<and>
         (PROP_SERVICE_NAME K \<noteq> PROP_BUILD_STAMP K \<longrightarrow>
            (truthy (buildStamp md) \<and> \<not> hasOwnProperty (own (tags sp)) (PROP_BUILD_STAMP K) \<longrightarrow>
               hasOwnProperty (own (tags sp')) (PROP_BUILD_STAMP K) \<and>
               tag_lookup (tags sp') (PROP_BUILD_STAMP K) = buildStamp md) \<and>
            (\<not> truthy (serviceName md) \<longrightarrow>
               hasOwnProperty (own (tags sp')) (PROP_SERVICE_NAME K) =
               hasOwnProperty (own (tags sp)) (PROP_SERVICE_NAME K)) \<and>
            (\<not> truthy (buildStamp md) \<longrightarrow>
               hasOwnProperty (own (tags sp')) (PROP_BUILD_STAMP K) =
               hasOwnProperty (own (tags sp)) (PROP_BUILD_STAMP K)))))"
proof -
  let ?D = "TRACE_DECORATOR K md"
  have A: "?D [] = []" by (rule decorator_Nil)
  have B: "node_span n = None \<longrightarrow> ?D (n # rest) = n # rest"
    by (simp add: decorator_no_span)
  have C: "length (?D nodes) = length nodes" by (rule decorator_length)
  have D: "tl (?D nodes) = tl nodes" by (rule decorator_tl)
  have E: "?D (?D nodes) = ?D nodes" by (rule decorator_idem)
  have F: "node_span n = Some sp \<longrightarrow>
      (\<exists>sp'. ?D (n # rest) = n\<lparr>node_span := Some sp'\<rparr> # rest \<and>
         span_context_of sp' = span_context_of sp \<and>
         proto (tags sp') = proto (tags sp) \<and>
         (\<forall>k. hasOwnProperty (own (tags sp)) k \<longrightarrow>
               hasOwnProperty (own (tags sp')) k \<and>
               get_prop (own (tags sp')) k = get_prop (own (tags sp)) k \<and>
               tag_lookup (tags sp') k = tag_lookup (tags sp) k) \<and>
         (\<forall>k. k \<noteq> PROP_SERVICE_NAME K \<and> k \<noteq> PROP_BUILD_STAMP K \<longrightarrow>
               hasOwnProperty (own (tags sp')) k = hasOwnProperty (own (tags sp)) k \<and>
               tag_lookup (tags sp') k = tag_lookup (tags sp) k) \<and>
         (truthy (serviceName md) \<and> \<not> hasOwnProperty (own (tags sp)) (PROP_SERVICE_NAME K) \<longrightarrow>
               hasOwnProperty (own (tags sp')) (PROP_SERVICE_NAME K) \<and>
               tag_lookup (tags sp') (PROP_SERVICE_NAME K) = serviceName md) \<and>
         (PROP_SERVICE_NAME K \<noteq> PROP_BUILD_STAMP K \<longrightarrow>
            (truthy (buildStamp md) \<and> \<not> hasOwnProperty (own (tags sp)) (PROP_BUILD_STAMP K) \<longrightarrow>
               hasOwnProperty (own (tags sp')) (PROP_BUILD_STAMP K) \<and>
               tag_lookup (tags sp') (PROP_BUILD_STAMP K) = buildStamp md) \<and>
            (\<not> truthy (serviceName md) \<longrightarrow>
               hasOwnProperty (own (tags sp')) (PROP_SERVICE_NAME K) =
               hasOwnProperty (own (tags sp)) (PROP_SERVICE_NAME K)) \<and>
            (\<not> truthy (buildStamp md) \<longrightarrow>
               hasOwnProperty (own (tags sp')) (PROP_BUILD_STAMP K) =
               hasOwnProperty (own (tags sp)) (PROP_BUILD_STAMP K))))"
  proof
    assume sp: "node_span n = Some sp"
    let ?sp' = "decorate_span K md sp"
    have 1: "?D (n # rest) = n\<lparr>node_span := Some ?sp'\<rparr> # rest"
      by (rule decorator_span[OF sp])
    have 2: "span_context_of ?sp' = span_context_of sp" "proto (tags ?sp') = proto (tags sp)"
      by (rule decorate_span_frame)+
    have 3: "\<forall>k. hasOwnProperty (own (tags sp)) k \<longrightarrow>
               hasOwnProperty (own (tags ?sp')) k \<and>
               get_prop (own (tags ?sp')) k = get_prop (own (tags sp)) k \<and>
               tag_lookup (tags ?sp') k = tag_lookup (tags sp) k"
      by (simp add: tag_lookup_def decorate_span_keeps)
    have 4: "\<forall>k. k \<noteq> PROP_SERVICE_NAME K \<and> k \<noteq> PROP_BUILD_STAMP K \<longrightarrow>
               hasOwnProperty (own (tags ?sp')) k = hasOwnProperty (own (tags sp)) k \<and>
               tag_lookup (tags ?sp') k = tag_lookup (tags sp) k"
      by (simp add: tag_lookup_def decorate_span_other decorate_span_frame)
    have 5: "truthy (serviceName md) \<and> \<not> hasOwnProperty (own (tags sp)) (PROP_SERVICE_NAME K) \<longrightarrow>
               hasOwnProperty (own (tags ?sp')) (PROP_SERVICE_NAME K) \<and>
               tag_lookup (tags ?sp') (PROP_SERVICE_NAME K) = serviceName md"
      by (simp add: tag_lookup_def decorate_span_service)
    have 6: "PROP_SERVICE_NAME K \<noteq> PROP_BUILD_STAMP K \<longrightarrow>
            (truthy (buildStamp md) \<and> \<not> hasOwnProperty (own (tags sp)) (PROP_BUILD_STAMP K) \<longrightarrow>
               hasOwnProperty (own (tags ?sp')) (PROP_BUILD_STAMP K) \<and>
               tag_lookup (tags ?sp') (PROP_BUILD_STAMP K) = buildStamp md) \<and>
            (\<not> truthy (serviceName md) \<longrightarrow>
               hasOwnProperty (own (tags ?sp')) (PROP_SERVICE_NAME K) =
               hasOwnProperty (own (tags sp)) (PROP_SERVICE_NAME K)) \<and>
            (\<not> truthy (buildStamp md) \<longrightarrow>
               hasOwnProperty (own (tags ?sp')) (PROP_BUILD_STAMP K) =
               hasOwnProperty (own (tags sp)) (PROP_BUILD_STAMP K))"
      by (simp add: tag_lookup_def decorate_span_build decorate_span_absent)
    from 1 2 3 4 5 6
    show "\<exists>sp'. ?D (n # rest) = n\<lparr>node_span := Some sp'\<rparr> # rest \<and>
         span_context_of sp' = span_context_of sp \<and>
         proto (tags sp') = proto (tags sp) \<and>
         (\<forall>k. hasOwnProperty (own (tags sp)) k \<longrightarrow>
               hasOwnProperty (own (tags sp')) k \<and>
               get_prop (own (tags sp')) k = get_prop (own (tags sp)) k \<and>
               tag_lookup (tags sp') k = tag_lookup (tags sp) k) \<and>
         (\<forall>k. k \<noteq> PROP_SERVICE_NAME K \<and> k \<noteq> PROP_BUILD_STAMP K \<longrightarrow>
               hasOwnProperty (own (tags sp')) k = hasOwnProperty (own (tags sp)) k \<and>
               tag_lookup (tags sp') k = tag_lookup (tags sp) k) \<and>
         (truthy (serviceName md) \<and> \<not> hasOwnProperty (own (tags sp)) (PROP_SERVICE_NAME K) \<longrightarrow>
               hasOwnProperty (own (tags sp')) (PROP_SERVICE_NAME K) \<and>
               tag_lookup (tags sp') (PROP_SERVICE_NAME K) = serviceName md) \<and>
         (PROP_SERVICE_NAME K \<noteq> PROP_BUILD_STAMP K \<longrightarrow>
            (truthy (buildStamp md) \<and> \<not> hasOwnProperty (own (tags sp)) (PROP_BUILD_STAMP K) \<longrightarrow>
               hasOwnProperty (own (tags sp')) (PROP_BUILD_STAMP K) \<and>
               tag_lookup (tags sp') (PROP_BUILD_STAMP K) = buildStamp md) \<and>
            (\<not> truthy (serviceName md) \<longrightarrow>
               hasOwnProperty (own (tags sp')) (PROP_SERVICE_NAME K) =
               hasOwnProperty (own (tags sp)) (PROP_SERVICE_NAME K)) \<and>
            (\<not> truthy (buildStamp md) \<longrightarrow>
               hasOwnProperty (own (tags sp')) (PROP_BUILD_STAMP K) =
               hasOwnProperty (own (tags sp)) (PROP_BUILD_STAMP K)))"
      by (intro exI[of _ ?sp'] conjI)
  qed
  show ?thesis
    by (intro conjI) (rule A B C D E F)+
qed

theorem trace_decorator_root_only_witness:
  "node_span example_root_node = Some example_span \<and>
   PROP_SERVICE_NAME example_constants \<noteq> PROP_BUILD_STAMP example_constants \<and>
   truthy (serviceName example_meta_data) \<and>
   truthy (buildStamp example_meta_data) \<and>
   hasOwnProperty (own (tags example_span)) ''service'' \<and>
   tag_lookup (tags example_span) ''service'' = JStr ''checkout'' \<and>
   \<not> hasOwnProperty (own (tags example_span)) ''buildStamp'' \<and>
   tag_lookup (tags example_span) ''buildStamp'' = JStr ''inherited'' \<and>
   (\<exists>sp'. TRACE_DECORATOR example_constants example_meta_data example_trace =
            [example_root_node\<lparr>node_span := Some sp'\<rparr>, example_child_node] \<and>
          tag_lookup (tags sp') ''service'' = JStr ''checkout'' \<and>
          tag_lookup (tags sp') ''buildStamp'' = JStr ''123'') \<and>
   TRACE_DECORATOR example_constants example_meta_data
     (TRACE_DECORATOR example_constants example_meta_data example_trace) =
   TRACE_DECORATOR example_constants example_meta_data example_trace"
proof -
  note T = trace_decorator_root_only[where K = example_constants and md = example_meta_data
      and n = example_root_node and rest = "[example_child_node]" and nodes = example_trace
      and sp = example_span]
  have h: "node_span example_root_node = Some example_span"
    "PROP_SERVICE_NAME example_constants \<noteq> PROP_BUILD_STAMP example_constants"
    "truthy (serviceName example_meta_data)"
    "truthy (buildStamp example_meta_data)"
    "hasOwnProperty (own (tags example_span)) ''service''"
    "tag_lookup (tags example_span) ''service'' = JStr ''checkout''"
    "\<not> hasOwnProperty (own (tags example_span)) ''buildStamp''"
    "tag_lookup (tags example_span) ''buildStamp'' = JStr ''inherited''"
    by (simp_all add: example_span_simps example_constants_simps tag_lookup_def
        hasOwnProperty_def get_prop_def)
  from T h obtain sp' where
    d: "TRACE_DECORATOR example_constants example_meta_data (example_root_node # [example_child_node]) =
          example_root_node\<lparr>node_span := Some sp'\<rparr> # [example_child_node]"
    and k: "\<forall>k. hasOwnProperty (own (tags example_span)) k \<longrightarrow>
               hasOwnProperty (own (tags sp')) k \<and>
               get_prop (own (tags sp')) k = get_prop (own (tags example_span)) k \<and>
               tag_lookup (tags sp') k = tag_lookup (tags example_span) k"
    and b: "tag_lookup (tags sp') (PROP_BUILD_STAMP example_constants) = buildStamp example_meta_data"
    by (auto simp: example_constants_simps)
  from k h have s: "tag_lookup (tags sp') ''service'' = JStr ''checkout''" by simp
  from b have b': "tag_lookup (tags sp') ''buildStamp'' = JStr ''123''"
    by (simp add: example_constants_simps example_span_simps)
  from T have i: "TRACE_DECORATOR example_constants example_meta_data
     (TRACE_DECORATOR example_constants example_meta_data example_trace) =
   TRACE_DECORATOR example_constants example_meta_data example_trace" by blast
  from d s b' have "\<exists>sp'. TRACE_DECORATOR example_constants example_meta_data example_trace =
            [example_root_node\<lparr>node_span := Some sp'\<rparr>, example_child_node] \<and>
          tag_lookup (tags sp') ''service'' = JStr ''checkout'' \<and>
          tag_lookup (tags sp') ''buildStamp'' = JStr ''123''"
    unfolding example_trace_def by blast
  with h i show ?thesis by blast
qed

section \<open>extract on a recognised format\<close>

lemma last_match_Nil: "last_match up rd [] name d = d"
  by (simp add: last_match_def)

lemma last_match_snoc:
  "last_match up rd (ks @ [k]) name d =
     (if up k = name then rd k else last_match up rd ks name d)"
  by (simp add: last_match_def Let_def)

lemma fold_extract_step:
  assumes wf: "wf_constants K"
  shows "fold (extract_step up K h c) ks v =
     \<lparr>var_correlationId = last_match up (js_get h c) ks (CARRIER_CORRELATION_ID K) (var_correlationId v),
      var_traceId = last_match up (js_get h c) ks (CARRIER_TRACE_ID K) (var_traceId v),
      var_level = last_match up (js_get h c) ks (CARRIER_LEVEL K) (var_level v),
      var_transaction = last_match up (js_get h c) ks (CARRIER_TRANSACTION K) (var_transaction v)\<rparr>"
proof (induction ks rule: rev_induct)
  case Nil
  show ?case by (simp add: last_match_Nil)
next
  case (snoc k ks)
  note d = wf_constantsD[OF wf]
  let ?v = "fold (extract_step up K h c) ks v"
  have "fold (extract_step up K h c) (ks @ [k]) v = extract_step up K h c k ?v"
    by simp
  also have "\<dots> =
     (let u = up k in
      if u = CARRIER_CORRELATION_ID K then ?v\<lparr>var_correlationId := js_get h c k\<rparr>
      else if u = CARRIER_TRACE_ID K then ?v\<lparr>var_traceId := js_get h c k\<rparr>
      else if u = CARRIER_TRANSACTION K then ?v\<lparr>var_transaction := js_get h c k\<rparr>
      else if u = CARRIER_LEVEL K then ?v\<lparr>var_level := js_get h c k\<rparr>
      else ?v)"
    by (rule extract_step_def)
  finally show ?case
    using d by (simp add: snoc.IH last_match_snoc Let_def)
qed

lemma extract_object:
  assumes wf: "wf_constants K" and f: "supported K f"
  shows "tracer_extract up K f (JRef a) s =
     Inr (\<lparr>spanId = mk_id (idgen s),
           traceId = recovered up (heap s a) (CARRIER_TRACE_ID K) JUndefined,
           parentId = JUndefined,
           transaction = recovered up (heap s a) (CARRIER_TRANSACTION K) JUndefined,
           level = recovered up (heap s a) (CARRIER_LEVEL K) JUndefined,
           consumerCorrelationId = recovered up (heap s a) (CARRIER_CORRELATION_ID K) JNull,
           trace_ref = None\<rparr>,
          s\<lparr>idgen := Suc (idgen s)\<rparr>)"
proof -
  have js: "js_get (heap s) (JRef a) = get_prop (heap s a)" by (rule ext) simp
  show ?thesis
    using f
    by (simp add: tracer_extract_def supported_def extractHttpAndTextMap_def
        fold_extract_step[OF wf] generateSpanId_def APMSpanContext_def
        setConsumerCorrelationId_def extract_init_def recovered_def js)
qed

lemma recovered_absent:
  "\<forall>k\<in>set (map fst ob). up k \<noteq> name \<Longrightarrow> recovered up ob name d = d"
  by (simp add: recovered_def last_match_def Let_def filter_empty_conv)

lemma get_prop_filter:
  "P k \<Longrightarrow> get_prop (filter (\<lambda>p. P (fst p)) ob) k = get_prop ob k"
  unfolding get_prop_def by (induction ob) auto

lemma recovered_filter:
  assumes "\<And>k. up k = name \<Longrightarrow> P k"
  shows "recovered up (filter (\<lambda>p. P (fst p)) ob) name d = recovered up ob name d"
proof -
  let ?Q = "\<lambda>k. up k = name"
  have 1: "filter ?Q (map fst (filter (\<lambda>p. P (fst p)) ob)) = filter ?Q (map fst ob)"
    using assms by (induction ob) auto
  show ?thesis
  proof (cases "filter ?Q (map fst ob) = []")
    case True
    with 1 show ?thesis by (simp add: recovered_def last_match_def)
  next
    case False
    then have "last (filter ?Q (map fst ob)) \<in> set (filter ?Q (map fst ob))"
      by (rule last_in_set)
    then have "P (last (filter ?Q (map fst ob)))" using assms by simp
    with 1 False show ?thesis
      by (simp add: recovered_def last_match_def get_prop_filter)
  qed
qed

lemma recovered_distinct:
  assumes d: "distinct (map fst ob)"
  shows "recovered up ob name dflt =
     (let ms = filter (\<lambda>q. fst q = name) (folded up ob)
      in if ms = [] then dflt else snd (last ms))"
proof -
  let ?Q = "\<lambda>k. up k = name"
  let ?ps = "filter (\<lambda>p. ?Q (fst p)) ob"
  have 1: "filter ?Q (map fst ob) = map fst ?ps"
    by (simp add: filter_map comp_def)
  have 2: "filter (\<lambda>q. fst q = name) (folded up ob) = map (\<lambda>p. (up (fst p), snd p)) ?ps"
    by (simp add: folded_def filter_map comp_def)
  show ?thesis
  proof (cases "?ps = []")
    case True
    then show ?thesis by (simp add: recovered_def last_match_def 1 2)
  next
    case False
    then have "last ?ps \<in> set ob"
      using last_in_set[OF False] by simp
    then have "map_of ob (fst (last ?ps)) = Some (snd (last ?ps))"
      using d by simp
    then have "get_prop ob (fst (last ?ps)) = snd (last ?ps)"
      by (simp add: get_prop_def)
    with False show ?thesis
      by (simp add: recovered_def last_match_def 1 2 last_map)
  qed
qed

lemma folded_eq:
  "folded up ob = folded up ob' \<longleftrightarrow>
     map (up \<circ> fst) ob = map (up \<circ> fst) ob' \<and> map snd ob = map snd ob'"
proof -
  have "\<And>x. folded up x = zip (map (up \<circ> fst) x) (map snd x)"
    by (simp add: folded_def zip_map_map) (induct_tac x; simp)
  then show ?thesis
    by (metis length_map map_fst_zip map_snd_zip)
qed

lemma example_extract_state_simps:
  "heap example_extract_state 0 =
     [(''hwkapmtraceid'', JStr ''t9''), (''HwkApmId'', JStr ''c7''),
      (''hwkapmtxn'', JStr ''buy''), (''HwkApmLevel'', JStr ''All''), (''x-other'', JNum 1)]"
  "heap example_extract_state 2 =
     [(''HWKAPMTRACEID'', JStr ''t9''), (''HWKAPMID'', JStr ''c7''),
      (''HWKAPMTXN'', JStr ''buy''), (''HWKAPMLEVEL'', JStr ''All''), (''X-Other'', JNum 1)]"
  "idgen example_extract_state = 1"
  by (simp_all add: example_extract_state_def example_state_simps)

text \<open>Keys that differ in letter case only have the same upper-case form.\<close>

lemma letter_pairs_fst: "map fst letter_pairs = ''abcdefghijklmnopqrstuvwxyz''"
  by (simp add: letter_pairs_def)

lemma letter_pairs_snd: "map snd letter_pairs = ''ABCDEFGHIJKLMNOPQRSTUVWXYZ''"
  by (simp add: letter_pairs_def)

lemma upper_char_pair:
  assumes "(c, d) \<in> set letter_pairs"
  shows "upper_char c = d" and "upper_char d = d"
proof -
  have "distinct (map fst letter_pairs)"
    unfolding letter_pairs_fst by simp
  with assms have "map_of letter_pairs c = Some d"
    by (rule map_of_is_SomeI[rotated])
  then show "upper_char c = d" by (simp add: upper_char_def)
  from assms have "d \<in> set (map snd letter_pairs)" by force
  then have "d \<in> set ''ABCDEFGHIJKLMNOPQRSTUVWXYZ''"
    unfolding letter_pairs_snd .
  then have "d \<notin> set ''abcdefghijklmnopqrstuvwxyz''" by auto
  then have "d \<notin> fst ` set letter_pairs"
    using letter_pairs_fst by (metis set_map)
  then have "map_of letter_pairs d = None"
    by (simp add: map_of_eq_None_iff)
  then show "upper_char d = d" by (simp add: upper_char_def)
qed

lemma same_letter_upper: "same_letter c d \<Longrightarrow> upper_char c = upper_char d"
  unfolding same_letter_def by (auto simp: upper_char_pair)

lemma case_variant_upper: "case_variant k k' \<Longrightarrow> ascii_toUpperCase k = ascii_toUpperCase k'"
  unfolding case_variant_def ascii_toUpperCase_def
  by (induction k k' rule: list_all2_induct) (simp_all add: same_letter_upper)

lemma agrees_case_variant:
  assumes "agrees_on_ascii up" and "list_all is_ascii k" and "list_all is_ascii k'"
    and "case_variant k k'"
  shows "up k = up k'"
  using assms by (simp add: agrees_on_ascii_def case_variant_upper)

lemma agrees_case_variant_keys:
  assumes a: "agrees_on_ascii up"
    and "list_all (list_all is_ascii) ks" and "list_all (list_all is_ascii) ks'"
    and "list_all2 case_variant ks ks'"
  shows "map up ks = map up ks'"
  using assms(4,2,3)
  by (induction ks ks' rule: list_all2_induct) (simp_all add: agrees_case_variant[OF a])

lemma recovered_last_key:
  assumes "up k = name" and "k \<notin> set (map fst ob)"
  shows "recovered up (ob @ [(k, v)]) name d = v"
proof -
  from assms(2) have "map_of ob k = None" by (simp add: map_of_eq_None_iff)
  then have "get_prop (ob @ [(k, v)]) k = v"
    by (simp add: get_prop_def map_add_def)
  with assms(1) show ?thesis
    by (simp add: recovered_def last_match_def)
qed

text \<open>
  C3: for a recognised format and an object carrier, \<^verbatim>\<open>extract\<close> returns a context
  whose span id is a newly generated one, whose trace id, transaction and level are the
  values recovered under the respective key names and \<^verbatim>\<open>undefined\<close> when no key
  matches, and whose consumer correlation id is the value recovered under the
  correlation-id name (\<^verbatim>\<open>null\<close>, the initial value of the local variable, when no key
  matches). A key is recognised by its upper-case form alone: the value recovered for a
  name is the property under the last key whose upper-case form is the name. Removing
  all keys that are not recognised does not change the result, and two carriers with
  distinct keys whose keys have the same upper-case forms and whose values agree give
  the same result. This holds whatever \<^verbatim>\<open>toUpperCase\<close> does. With what it does on
  ASCII text, two carriers with distinct ASCII keys that differ in letter case only
  give the same result, and a carrier whose last key is an ASCII key that differs in
  letter case only from one of the four names (themselves in upper case) has its value
  recovered under that name.
\<close>

theorem extract_recognises_keys:
  assumes wf: "wf_constants K" and f: "supported K f"
  shows "tracer_extract up K f (JRef a) s =
     Inr (\<lparr>spanId = mk_id (idgen s),
           traceId = recovered up (heap s a) (CARRIER_TRACE_ID K) JUndefined,
           parentId = JUndefined,
           transaction = recovered up (heap s a) (CARRIER_TRANSACTION K) JUndefined,
           level = recovered up (heap s a) (CARRIER_LEVEL K) JUndefined,
           consumerCorrelationId = recovered up (heap s a) (CARRIER_CORRELATION_ID K) JNull,
           trace_ref = None\<rparr>,
          s\<lparr>idgen := Suc (idgen s)\<rparr>) \<and>
   \<not> issued s (mk_id (idgen s)) \<and>
   (\<forall>name d. (\<forall>k\<in>set (map fst (heap s a)). up k \<noteq> name) \<longrightarrow>
       recovered up (heap s a) name d = d) \<and>
   (\<forall>name d. filter (\<lambda>k. up k = name) (map fst (heap s a)) \<noteq> [] \<longrightarrow>
       recovered up (heap s a) name d =
       get_prop (heap s a) (last (filter (\<lambda>k. up k = name) (map fst (heap s a))))) \<and>
   (\<forall>b. heap s b = filter (\<lambda>p. up (fst p) \<in> set (carrier_keys K)) (heap s a) \<longrightarrow>
       tracer_extract up K f (JRef b) s = tracer_extract up K f (JRef a) s) \<and>
   (\<forall>b. distinct (map fst (heap s a)) \<and> distinct (map fst (heap s b)) \<and>
        map (up \<circ> fst) (heap s b) = map (up \<circ> fst) (heap s a) \<and>
        map snd (heap s b) = map snd (heap s a) \<longrightarrow>
       tracer_extract up K f (JRef b) s = tracer_extract up K f (JRef a) s) \<and>
   (agrees_on_ascii up \<longrightarrow>
      (\<forall>b. distinct (map fst (heap s a)) \<and> distinct (map fst (heap s b)) \<and>
           list_all (list_all is_ascii) (map fst (heap s a)) \<and>
           list_all (list_all is_ascii) (map fst (heap s b)) \<and>
           list_all2 case_variant (map fst (heap s b)) (map fst (heap s a)) \<and>
           map snd (heap s b) = map snd (heap s a) \<longrightarrow>
          tracer_extract up K f (JRef b) s = tracer_extract up K f (JRef a) s)) \<and>
   (agrees_on_ascii up \<and> upper_case_keys up K \<longrightarrow>
      (\<forall>name k v d ob. name \<in> set (carrier_keys K) \<and> list_all is_ascii name \<and>
           list_all is_ascii k \<and> case_variant k name \<and> k \<notin> set (map fst ob) \<longrightarrow>
          recovered up (ob @ [(k, v)]) name d = v))"
proof -
  note E = extract_object[OF wf f]
  have A: "\<forall>name d. (\<forall>k\<in>set (map fst (heap s a)). up k \<noteq> name) \<longrightarrow>
       recovered up (heap s a) name d = d"
    using recovered_absent by blast
  have B: "\<forall>name d. filter (\<lambda>k. up k = name) (map fst (heap s a)) \<noteq> [] \<longrightarrow>
       recovered up (heap s a) name d =
       get_prop (heap s a) (last (filter (\<lambda>k. up k = name) (map fst (heap s a))))"
    by (simp add: recovered_def last_match_def)
  have C: "\<forall>b. heap s b = filter (\<lambda>p. up (fst p) \<in> set (carrier_keys K)) (heap s a) \<longrightarrow>
       tracer_extract up K f (JRef b) s = tracer_extract up K f (JRef a) s"
  proof (intro allI impI)
    fix b
    assume b: "heap s b = filter (\<lambda>p. up (fst p) \<in> set (carrier_keys K)) (heap s a)"
    have "\<And>name d. name \<in> set (carrier_keys K) \<Longrightarrow>
        recovered up (heap s b) name d = recovered up (heap s a) name d"
      unfolding b by (rule recovered_filter) simp
    then show "tracer_extract up K f (JRef b) s = tracer_extract up K f (JRef a) s"
      by (simp add: E carrier_keys_def)
  qed
  have D': "tracer_extract up K f (JRef b) s = tracer_extract up K f (JRef a) s"
    if da: "distinct (map fst (heap s a))" and db: "distinct (map fst (heap s b))"
      and k: "map (up \<circ> fst) (heap s b) = map (up \<circ> fst) (heap s a)"
      and v: "map snd (heap s b) = map snd (heap s a)" for b
  proof -
    from k v have "folded up (heap s b) = folded up (heap s a)" by (simp add: folded_eq)
    then have "\<And>name d. recovered up (heap s b) name d = recovered up (heap s a) name d"
      by (simp add: recovered_distinct[OF da] recovered_distinct[OF db])
    then show ?thesis by (simp add: E)
  qed
  have D: "\<forall>b. distinct (map fst (heap s a)) \<and> distinct (map fst (heap s b)) \<and>
        map (up \<circ> fst) (heap s b) = map (up \<circ> fst) (heap s a) \<and>
        map snd (heap s b) = map snd (heap s a) \<longrightarrow>
       tracer_extract up K f (JRef b) s = tracer_extract up K f (JRef a) s"
    using D' by blast
  have F: "agrees_on_ascii up \<longrightarrow>
      (\<forall>b. distinct (map fst (heap s a)) \<and> distinct (map fst (heap s b)) \<and>
           list_all (list_all is_ascii) (map fst (heap s a)) \<and>
           list_all (list_all is_ascii) (map fst (heap s b)) \<and>
           list_all2 case_variant (map fst (heap s b)) (map fst (heap s a)) \<and>
           map snd (heap s b) = map snd (heap s a) \<longrightarrow>
          tracer_extract up K f (JRef b) s = tracer_extract up K f (JRef a) s)"
  proof (intro impI allI, elim conjE)
    fix b
    assume ag: "agrees_on_ascii up"
      and da: "distinct (map fst (heap s a))" and db: "distinct (map fst (heap s b))"
      and aa: "list_all (list_all is_ascii) (map fst (heap s a))"
      and ab: "list_all (list_all is_ascii) (map fst (heap s b))"
      and cv: "list_all2 case_variant (map fst (heap s b)) (map fst (heap s a))"
      and v: "map snd (heap s b) = map snd (heap s a)"
    from agrees_case_variant_keys[OF ag ab aa cv]
    have "map (up \<circ> fst) (heap s b) = map (up \<circ> fst) (heap s a)" by simp
    from D'[OF da db this v]
    show "tracer_extract up K f (JRef b) s = tracer_extract up K f (JRef a) s" .
  qed
  have G: "agrees_on_ascii up \<and> upper_case_keys up K \<longrightarrow>
      (\<forall>name k v d ob. name \<in> set (carrier_keys K) \<and> list_all is_ascii name \<and>
           list_all is_ascii k \<and> case_variant k name \<and> k \<notin> set (map fst ob) \<longrightarrow>
          recovered up (ob @ [(k, v)]) name d = v)"
  proof (intro impI allI, elim conjE)
    fix name k :: string and v d :: jsval and ob :: obj
    assume ag: "agrees_on_ascii up" and uc: "upper_case_keys up K"
      and n: "name \<in> set (carrier_keys K)" and an: "list_all is_ascii name"
      and ak: "list_all is_ascii k" and cv: "case_variant k name"
      and nk: "k \<notin> set (map fst ob)"
    from uc n have "up name = name"
      by (simp add: upper_case_keys_def list_all_iff)
    with agrees_case_variant[OF ag ak an cv] have uk: "up k = name" by simp
    show "recovered up (ob @ [(k, v)]) name d = v"
      using uk nk by (rule recovered_last_key)
  qed
  show ?thesis
    by (intro conjI) (rule E not_issued_next A B C D F G)+
qed

theorem extract_recognises_keys_witness:
  "wf_constants example_constants \<and> supported example_constants (JStr ''http_headers'') \<and>
   agrees_on_ascii ascii_toUpperCase \<and>
   upper_case_keys ascii_toUpperCase example_constants \<and>
   ascii_toUpperCase ''abcdefghijklmnopqrstuvwxyz'' = ''ABCDEFGHIJKLMNOPQRSTUVWXYZ'' \<and>
   tracer_extract ascii_toUpperCase example_constants (JStr ''http_headers'') (JRef 0)
       example_extract_state =
     Inr (\<lparr>spanId = JStr ''1'', traceId = JStr ''t9'', parentId = JUndefined,
           transaction = JStr ''buy'', level = JStr ''All'',
           consumerCorrelationId = JStr ''c7'', trace_ref = None\<rparr>,
          example_extract_state\<lparr>idgen := 2\<rparr>) \<and>
   tracer_extract ascii_toUpperCase example_constants (JStr ''http_headers'') (JRef 2)
       example_extract_state =
   tracer_extract ascii_toUpperCase example_constants (JStr ''http_headers'') (JRef 0)
       example_extract_state \<and>
   tracer_extract ascii_toUpperCase example_constants (JStr ''http_headers'') (JRef 5)
       example_extract_state =
     Inr (\<lparr>spanId = JStr ''1'', traceId = JUndefined, parentId = JUndefined,
           transaction = JUndefined, level = JUndefined,
           consumerCorrelationId = JNull, trace_ref = None\<rparr>,
          example_extract_state\<lparr>idgen := 2\<rparr>)"
proof -
  have wf: "wf_constants example_constants" by (rule wf_example_constants)
  have f: "supported example_constants (JStr ''http_headers'')"
    by (simp add: supported_def example_constants_simps)
  note ag = agrees_on_ascii_ascii
  note uc = upper_case_example_constants
  have al: "ascii_toUpperCase ''abcdefghijklmnopqrstuvwxyz'' = ''ABCDEFGHIJKLMNOPQRSTUVWXYZ''"
    by (simp add: ascii_toUpperCase_def upper_char_def letter_pairs_def)
  note T = extract_recognises_keys[OF wf f, where up = ascii_toUpperCase and a = 0
      and s = example_extract_state]
  note T5 = extract_recognises_keys[OF wf f, where up = ascii_toUpperCase and a = 5
      and s = example_extract_state]
  have r: "recovered ascii_toUpperCase (heap example_extract_state 0) ''HWKAPMTRACEID'' JUndefined
             = JStr ''t9''"
    "recovered ascii_toUpperCase (heap example_extract_state 0) ''HWKAPMTXN'' JUndefined
             = JStr ''buy''"
    "recovered ascii_toUpperCase (heap example_extract_state 0) ''HWKAPMLEVEL'' JUndefined
             = JStr ''All''"
    "recovered ascii_toUpperCase (heap example_extract_state 0) ''HWKAPMID'' JNull = JStr ''c7''"
    by (simp_all add: example_extract_state_simps recovered_def last_match_def
        ascii_toUpperCase_def upper_char_def letter_pairs_def get_prop_def)
  from T[THEN conjunct1]
  have 1: "tracer_extract ascii_toUpperCase example_constants (JStr ''http_headers'') (JRef 0)
       example_extract_state =
     Inr (\<lparr>spanId = JStr ''1'', traceId = JStr ''t9'', parentId = JUndefined,
           transaction = JStr ''buy'', level = JStr ''All'',
           consumerCorrelationId = JStr ''c7'', trace_ref = None\<rparr>,
          example_extract_state\<lparr>idgen := 2\<rparr>)"
    by (simp add: r example_constants_simps example_extract_state_simps(3) mk_id_numerals)
  have e5: "heap example_extract_state 5 = []"
    by (simp add: example_extract_state_def example_state_simps)
  have r5: "recovered ascii_toUpperCase [] name d = d" for name d
    by (simp add: recovered_def last_match_def)
  from T5[THEN conjunct1]
  have 3: "tracer_extract ascii_toUpperCase example_constants (JStr ''http_headers'') (JRef 5)
       example_extract_state =
     Inr (\<lparr>spanId = JStr ''1'', traceId = JUndefined, parentId = JUndefined,
           transaction = JUndefined, level = JUndefined,
           consumerCorrelationId = JNull, trace_ref = None\<rparr>,
          example_extract_state\<lparr>idgen := 2\<rparr>)"
    by (simp add: e5 r5 example_extract_state_simps(3) mk_id_numerals)
  have v: "distinct (map fst (heap example_extract_state 0)) \<and>
        distinct (map fst (heap example_extract_state 2)) \<and>
        list_all (list_all is_ascii) (map fst (heap example_extract_state 0)) \<and>
        list_all (list_all is_ascii) (map fst (heap example_extract_state 2)) \<and>
        list_all2 case_variant (map fst (heap example_extract_state 2))
          (map fst (heap example_extract_state 0)) \<and>
        map snd (heap example_extract_state 2) = map snd (heap example_extract_state 0)"
    by (simp add: example_extract_state_simps is_ascii_def case_variant_def same_letter_def
        letter_pairs_def)
  have 2: "tracer_extract ascii_toUpperCase example_constants (JStr ''http_headers'') (JRef 2)
       example_extract_state =
   tracer_extract ascii_toUpperCase example_constants (JStr ''http_headers'') (JRef 0)
       example_extract_state"
    by (rule T[THEN conjunct2, THEN conjunct2, THEN conjunct2, THEN conjunct2, THEN conjunct2,
          THEN conjunct2, THEN conjunct1, rule_format, OF ag v])
  show ?thesis
    by (intro conjI wf f ag uc al 1 2 3)
qed

text \<open>
  C8 fails on the code: \<^verbatim>\<open>extract\<close> with a recognised format and the carrier
  \<^verbatim>\<open>null\<close> reaches \<^verbatim>\<open>Object.keys(null)\<close>, which throws a TypeError. Unlike
  \<^verbatim>\<open>inject\<close>, \<^verbatim>\<open>extract\<close> has no guard on its carrier.
\<close>

theorem extract_null_carrier_throws:
  "tracer_extract toUpperCase example_constants (JStr ''text_map'') JNull example_state =
     Inl TypeError"
  by (simp add: tracer_extract_def extractHttpAndTextMap_def example_constants_simps)

section \<open>inject followed by extract\<close>

lemma recovered_injected:
  assumes wf: "wf_constants K" and uc: "upper_case_keys up K"
  shows "recovered up (injected K c cid []) (CARRIER_TRACE_ID K) d = traceId c"
    and "recovered up (injected K c cid []) (CARRIER_CORRELATION_ID K) d = cid"
    and "recovered up (injected K c cid []) (CARRIER_TRANSACTION K) d =
           (if truthy (transaction c) then transaction c else d)"
    and "recovered up (injected K c cid []) (CARRIER_LEVEL K) d =
           (if truthy (level c) then level c else d)"
  using wf_constantsD[OF wf] upper_case_keysD[OF uc]
  by (simp_all add: injected_def set_prop_def recovered_def last_match_def get_prop_def Let_def)

lemma roundtrip_eq:
  assumes wf: "wf_constants K" and uc: "upper_case_keys up K" and f: "supported K f"
    and tr: "trace_ref (resolve arg) = Some t" and e: "heap s a = []"
  shows "roundtrip up K arg f a s =
     Inr \<lparr>spanId = mk_id (Suc (idgen s)),
          traceId = traceId (resolve arg),
          parentId = JUndefined,
          transaction = (if truthy (transaction (resolve arg)) then transaction (resolve arg)
                         else JUndefined),
          level = (if truthy (level (resolve arg)) then level (resolve arg) else JUndefined),
          consumerCorrelationId = mk_id (idgen s),
          trace_ref = None\<rparr>"
  by (simp add: roundtrip_def inject_supported[OF f tr] extract_object[OF wf f] e
      recovered_injected[OF wf uc])

lemma empty_transaction_context_simps:
  "traceId empty_transaction_context = JStr ''t1''"
  "transaction empty_transaction_context = JStr ''''"
  "level empty_transaction_context = JUndefined"
  "trace_ref empty_transaction_context = Some 0"
  by (simp_all add: empty_transaction_context_def example_context_simps)

text \<open>
  C2, as stated, fails: a context whose transaction is the empty string is injected into
  an empty carrier with a recognised format; the transaction key is not written, and
  the context extracted from the carrier has the transaction \<^verbatim>\<open>undefined\<close>.
\<close>

theorem roundtrip_counterexample:
  "transaction empty_transaction_context = JStr '''' \<and>
   map_sum id transaction
     (roundtrip ascii_toUpperCase example_constants (ArgContext empty_transaction_context) (JStr ''text_map'') 0
        example_state) = Inr JUndefined"
proof -
  have wf: "wf_constants example_constants" by (rule wf_example_constants)
  have uc: "upper_case_keys ascii_toUpperCase example_constants"
    by (rule upper_case_example_constants)
  have f: "supported example_constants (JStr ''text_map'')"
    by (simp add: supported_def example_constants_simps)
  have tr: "trace_ref (resolve (ArgContext empty_transaction_context)) = Some 0"
    by (simp add: empty_transaction_context_simps)
  have e: "heap example_state 0 = []" by (simp add: example_state_simps)
  show ?thesis
    by (simp add: roundtrip_eq[OF wf uc f tr e] empty_transaction_context_simps)
qed

text \<open>
  C2, amended: for a recognised format, a context with an owning trace and an empty
  carrier, inject followed by extract returns a context with the trace id of the
  original, with its transaction and its level where these are truthy and
  \<^verbatim>\<open>undefined\<close> where they are not, and whose consumer correlation id is the id that
  the inject call minted and wrote under the correlation-id key: an id not issued
  before, hence not the original context's own id.
\<close>

theorem roundtrip_recovers:
  assumes wf: "wf_constants K" and uc: "upper_case_keys up K" and f: "supported K f"
    and tr: "trace_ref (resolve arg) = Some t" and e: "heap s a = []"
  shows "roundtrip up K arg f a s =
     Inr \<lparr>spanId = mk_id (Suc (idgen s)),
          traceId = traceId (resolve arg),
          parentId = JUndefined,
          transaction = (if truthy (transaction (resolve arg)) then transaction (resolve arg)
                         else JUndefined),
          level = (if truthy (level (resolve arg)) then level (resolve arg) else JUndefined),
          consumerCorrelationId = mk_id (idgen s),
          trace_ref = None\<rparr> \<and>
     (\<exists>s1. inject K arg f (JRef a) s = Inr s1 \<and>
           get_prop (heap s1 a) (CARRIER_CORRELATION_ID K) = mk_id (idgen s)) \<and>
     \<not> issued s (mk_id (idgen s)) \<and>
     (issued s (spanId (resolve arg)) \<longrightarrow> mk_id (idgen s) \<noteq> spanId (resolve arg))"
proof -
  have "\<exists>s1. inject K arg f (JRef a) s = Inr s1 \<and>
           get_prop (heap s1 a) (CARRIER_CORRELATION_ID K) = mk_id (idgen s)"
    by (simp add: inject_supported[OF f tr] injected_get[OF wf])
  moreover have "issued s (spanId (resolve arg)) \<longrightarrow> mk_id (idgen s) \<noteq> spanId (resolve arg)"
    using not_issued_next[of s] by auto
  ultimately show ?thesis
    using roundtrip_eq[OF wf uc f tr e] not_issued_next[of s] by simp
qed

theorem roundtrip_recovers_witness:
  "wf_constants example_constants \<and> upper_case_keys ascii_toUpperCase example_constants \<and>
   supported example_constants (JStr ''text_map'') \<and>
   trace_ref (resolve (ArgContext example_context)) = Some 0 \<and>
   heap example_state 0 = [] \<and>
   issued example_state (spanId example_context) \<and>
   roundtrip ascii_toUpperCase example_constants (ArgContext example_context) (JStr ''text_map'') 0 example_state =
     Inr \<lparr>spanId = JStr ''2'', traceId = JStr ''t1'', parentId = JUndefined,
          transaction = JStr ''checkout'', level = JUndefined,
          consumerCorrelationId = JStr ''1'', trace_ref = None\<rparr> \<and>
   JStr ''1'' \<noteq> spanId example_context"
proof -
  have wf: "wf_constants example_constants" by (rule wf_example_constants)
  have uc: "upper_case_keys ascii_toUpperCase example_constants"
    by (rule upper_case_example_constants)
  have f: "supported example_constants (JStr ''text_map'')"
    by (simp add: supported_def example_constants_simps)
  have tr: "trace_ref (resolve (ArgContext example_context)) = Some 0"
    by (simp add: example_context_simps)
  have e: "heap example_state 0 = []" by (simp add: example_state_simps)
  have iss: "issued example_state (spanId example_context)"
    by (simp add: issued_def example_state_simps example_context_simps mk_id_numerals)
  have two: "mk_id (Suc (Suc 0)) = JStr ''2''"
    by (simp add: mk_id_def digits.simps digit_def)
  from roundtrip_recovers[OF wf uc f tr e] iss
  have "roundtrip ascii_toUpperCase example_constants (ArgContext example_context) (JStr ''text_map'') 0 example_state =
     Inr \<lparr>spanId = JStr ''2'', traceId = JStr ''t1'', parentId = JUndefined,
          transaction = JStr ''checkout'', level = JUndefined,
          consumerCorrelationId = JStr ''1'', trace_ref = None\<rparr> \<and>
   JStr ''1'' \<noteq> spanId example_context"
    by (simp add: example_state_simps example_context_simps mk_id_numerals two)
  with wf uc f tr e iss show ?thesis by simp
qed

end
